theory Spec2Isabelle
  imports Main "HOL-Library.AList"
begin

section \<open>Python values, dictionaries and strings\<close>

text \<open>
  The session state of the dialog system is a Python dictionary whose leaves are
  JSON-like values. Only their truthiness is ever inspected by the orchestration code
  (\<^verbatim>\<open>not params.get(p)\<close>), so a value is a small JSON datatype. Floating point
  numbers are left out.
\<close>

datatype pvalue =
    PNone
  | PBool bool
  | PInt int
  | PStr string
  | PList "pvalue list"
  | PDict "(string \<times> pvalue) list"

fun truthy :: "pvalue \<Rightarrow> bool" where
  "truthy PNone = False"
| "truthy (PBool b) = b"
| "truthy (PInt i) = (i \<noteq> 0)"
| "truthy (PStr s) = (s \<noteq> [])"
| "truthy (PList xs) = (xs \<noteq> [])"
| "truthy (PDict kvs) = (kvs \<noteq> [])"

text \<open>
  A \<^verbatim>\<open>dict\<close> is an association list with distinct keys in insertion order;
  \<^verbatim>\<open>d.get(k)\<close> is \<open>map_of d k\<close>, \<^verbatim>\<open>{**a, **b}\<close> is \<open>dict_merge a b\<close>
  and \<^verbatim>\<open>len(d) > 0\<close> is \<open>d \<noteq> []\<close>.
\<close>

type_synonym 'v dict = "(string \<times> 'v) list"

definition dict_merge :: "'v dict \<Rightarrow> 'v dict \<Rightarrow> 'v dict" where
  "dict_merge a b = fold (\<lambda>kv. AList.update (fst kv) (snd kv)) b a"

definition not_get :: "pvalue dict \<Rightarrow> string \<Rightarrow> bool" where
  \<comment> \<open>\<^verbatim>\<open>not d.get(p)\<close>: the key is absent or its value is falsy\<close>
  "not_get d p = (case map_of d p of None \<Rightarrow> True | Some v \<Rightarrow> \<not> truthy v)"

text \<open>
  \<^verbatim>\<open>needle in haystack\<close> on strings, \<^verbatim>\<open>str.lower()\<close> and \<^verbatim>\<open>str.strip()\<close>.
  Characters are the code points below 256.
\<close>

fun py_in :: "string \<Rightarrow> string \<Rightarrow> bool" where
  "py_in w [] = (w = [])"
| "py_in w (c # cs) = (take (length w) (c # cs) = w \<or> py_in w cs)"

definition lower_char :: "char \<Rightarrow> char" where
  "lower_char c =
     (let n = (of_char c :: nat)
      in if (65 \<le> n \<and> n \<le> 90) \<or> (192 \<le> n \<and> n \<le> 222 \<and> n \<noteq> 215)
         then char_of (n + 32) else c)"

definition lower :: "string \<Rightarrow> string" where
  "lower s = map lower_char s"

definition is_space :: "char \<Rightarrow> bool" where
  "is_space c =
     (let n = (of_char c :: nat)
      in (9 \<le> n \<and> n \<le> 13) \<or> (28 \<le> n \<and> n \<le> 32) \<or> n = 133 \<or> n = 160)"

definition strip :: "string \<Rightarrow> string" where
  "strip s = rev (dropWhile is_space (rev (dropWhile is_space s)))"

definition any_in :: "string list \<Rightarrow> string \<Rightarrow> bool" where
  \<comment> \<open>\<^verbatim>\<open>any(word in text for word in words)\<close>\<close>
  "any_in ws text = list_ex (\<lambda>w. py_in w text) ws"

section \<open>Session state (schemas/dialog_state.py)\<close>

record message =
  role :: string
  content :: string

record paused_intent =
  intent :: string
  parameters :: "pvalue dict"
  tools :: "string list"
  paused_at :: string

record confirmation =
  conf_type :: string
  conf_from :: string
  conf_to :: string

text \<open>
  \<^verbatim>\<open>dialog_context\<close> is a free-form dictionary. Every key that any agent reads or writes
  is a field of the record below; \<open>None\<close> stands for an absent key (or a key bound to
  Python's \<^verbatim>\<open>None\<close>, which \<^verbatim>\<open>.get\<close> does not distinguish).
\<close>

record dialog_context =
  retry_counts :: "int dict option"
  max_retries :: "int option"
  required_parameters :: "string list option"
  tool_execution_order :: "string list list option"
  current_tool_batch :: "nat option"
  completed_tools :: "string list option"
  awaiting_confirmation :: "confirmation option"
  last_response_type :: "string option"
  last_missing_params :: "string list option"
  needs_clarification :: "bool option"
  all_tools_completed :: "bool option"
  end_conversation :: "bool option"
  parameter_collection_failed :: "bool option"
  failed_parameter :: "string option"
  execution_error :: "string option"
  execution_blocked :: "bool option"
  missing_parameters :: "string list option"
  batch_execution_success :: "bool option"
  intent_switched :: "bool option"
  previous_intent :: "string option"
  context_error :: "string option"

definition empty_context :: dialog_context where
  "empty_context =
     \<lparr> retry_counts = None, max_retries = None, required_parameters = None,
       tool_execution_order = None, current_tool_batch = None, completed_tools = None,
       awaiting_confirmation = None, last_response_type = None,
       last_missing_params = None, needs_clarification = None,
       all_tools_completed = None, end_conversation = None,
       parameter_collection_failed = None, failed_parameter = None,
       execution_error = None, execution_blocked = None, missing_parameters = None,
       batch_execution_success = None, intent_switched = None, previous_intent = None,
       context_error = None \<rparr>"

record dialog_state =
  messages :: "message list"
  current_intent :: "string option"
  paused_intents :: "paused_intent list"
  extracted_parameters :: "pvalue dict"
  selected_tools :: "string list"
  tool_results :: "pvalue dict dict"
  dialog_context :: dialog_context

text \<open>
  The graph nodes an agent can hand control to. An agent returns
  \<^verbatim>\<open>Command(goto=..., update=...)\<close>; the state graph has no reducers, so every
  key of the update overwrites the key of the state. An agent is therefore a function
  from the state to the next node and the updated state.
\<close>

datatype node = Supervisor | Tool_choosing | Input_parameter | Tool_executing | Generation | End_node

definition assistant :: "string \<Rightarrow> message" where
  "assistant text = \<lparr> role = ''assistant'', content = text \<rparr>"

definition user :: "string \<Rightarrow> message" where
  "user text = \<lparr> role = ''user'', content = text \<rparr>"

text \<open>The reads of the context with a default, \<^verbatim>\<open>dialog_context.get(key, default)\<close>.\<close>

definition required_of :: "dialog_state \<Rightarrow> string list" where
  \<comment> \<open>\<^verbatim>\<open>dialog_context.get("required_parameters", [])\<close>\<close>
  "required_of state =
     (case required_parameters (dialog_context state) of None \<Rightarrow> [] | Some r \<Rightarrow> r)"

definition counts_of :: "dialog_state \<Rightarrow> int dict" where
  \<comment> \<open>\<^verbatim>\<open>dialog_context.get("retry_counts", {})\<close>\<close>
  "counts_of state =
     (case retry_counts (dialog_context state) of None \<Rightarrow> [] | Some c \<Rightarrow> c)"

definition limit_of :: "dialog_state \<Rightarrow> int" where
  \<comment> \<open>\<^verbatim>\<open>dialog_context.get("max_retries", 5)\<close>\<close>
  "limit_of state =
     (case max_retries (dialog_context state) of None \<Rightarrow> 5 | Some m \<Rightarrow> m)"

section \<open>Intent switching (agents/supervisor\_agent.py)\<close>

definition execute_intent_switch :: "dialog_state \<Rightarrow> string \<Rightarrow> string \<Rightarrow> node \<times> dialog_state" where
  "execute_intent_switch state from_intent to_intent =
     (let current_params = extracted_parameters state;
          current_tools = selected_tools state;
          paused = paused_intents state;
          entry = \<lparr> intent = from_intent, parameters = current_params,
                    tools = current_tools, paused_at = ''parameter_collection'' \<rparr>;
          updated_paused = filter (\<lambda>e. intent e \<noteq> from_intent) paused @ [entry]
      in (Tool_choosing,
          state \<lparr> current_intent := Some to_intent,
                  extracted_parameters := [],
                  selected_tools := [],
                  tool_results := [],
                  paused_intents := updated_paused,
                  dialog_context := empty_context
                    \<lparr> intent_switched := Some True,
                      previous_intent := Some from_intent,
                      awaiting_confirmation := None,
                      retry_counts := Some [],
                      max_retries := Some 5,
                      last_response_type := Some ''intent_switch'' \<rparr> \<rparr>))"

definition switch_clarification_msg :: string where
  "switch_clarification_msg =
     ''Please respond with 'yes' to switch or 'no' to continue with the current task.''"

definition handle_intent_switch_confirmation ::
    "dialog_state \<Rightarrow> confirmation \<Rightarrow> node \<times> dialog_state" where
  "handle_intent_switch_confirmation state pending =
     (let msgs = messages state
      in if msgs = [] \<or> role (last msgs) \<noteq> ''user'' then (End_node, state)
         else
           let user_response = strip (lower (content (last msgs)));
               from_intent = conf_from pending;
               to_intent = conf_to pending
           in if any_in [''yes'', ''y'', ''switch'', ''pause''] user_response
              then execute_intent_switch state from_intent to_intent
              else if any_in [''no'', ''n'', ''continue'', ''keep''] user_response
              then (Input_parameter,
                    state \<lparr> dialog_context := (dialog_context state)
                              \<lparr> awaiting_confirmation := None,
                                last_response_type := Some ''user_input'' \<rparr> \<rparr>)
              else (End_node,
                    state \<lparr> messages := msgs @ [assistant switch_clarification_msg] \<rparr>))"

section \<open>Configuration (config/system\_config.py)\<close>

record tool_config =
  tool_function :: string
  tool_description :: string
  tool_parameters :: "string list"
  tool_requires :: "string list option"
  tool_returns :: string

definition TOOLS :: "tool_config dict" where
  "TOOLS =
     [(''search_flights'',
       \<lparr> tool_function = ''travel_tools.search_flights'',
         tool_description = ''Search for available flights'',
         tool_parameters = [''origin'', ''destination'', ''date''],
         tool_requires = None,
         tool_returns = ''flight_options'' \<rparr>),
      (''book_flight'',
       \<lparr> tool_function = ''travel_tools.book_flight'',
         tool_description = ''Book a specific flight'',
         tool_parameters = [''origin'', ''destination'', ''date''],
         tool_requires = Some [''flight_options''],
         tool_returns = ''booking_confirmation'' \<rparr>),
      (''search_hotels'',
       \<lparr> tool_function = ''travel_tools.search_hotels'',
         tool_description = ''Search for hotels'',
         tool_parameters = [''destination'', ''days''],
         tool_requires = None,
         tool_returns = ''hotel_options'' \<rparr>),
      (''book_hotel'',
       \<lparr> tool_function = ''travel_tools.book_hotel'',
         tool_description = ''Book a specific hotel'',
         tool_parameters = [''destination'', ''days''],
         tool_requires = Some [''hotel_options''],
         tool_returns = ''hotel_booking'' \<rparr>),
      (''get_weather'',
       \<lparr> tool_function = ''travel_tools.get_weather'',
         tool_description = ''Get weather information'',
         tool_parameters = [''destination'', ''date''],
         tool_requires = None,
         tool_returns = ''weather_info'' \<rparr>)]"

record param_config =
  param_type :: string
  param_description :: string
  param_question :: string
  param_required :: bool

record intent_config =
  intent_description :: string
  intent_tools :: "string list"
  intent_parameters :: "param_config dict"

definition INTENTS :: "intent_config dict" where
  "INTENTS =
     [(''book_flight'',
       \<lparr> intent_description = ''Book airline tickets'',
         intent_tools = [''search_flights'', ''book_flight''],
         intent_parameters =
           [(''origin'',
             \<lparr> param_type = ''string'', param_description = ''Departure city or airport'',
               param_question = ''Which city or airport are you departing from?'',
               param_required = True \<rparr>),
            (''destination'',
             \<lparr> param_type = ''string'', param_description = ''Arrival city or airport'',
               param_question = ''Where would you like to fly to?'',
               param_required = True \<rparr>),
            (''date'',
             \<lparr> param_type = ''date'', param_description = ''Travel date'',
               param_question = ''What date would you like to travel?'',
               param_required = True \<rparr>)] \<rparr>),
      (''book_hotel'',
       \<lparr> intent_description = ''Book hotel accommodation'',
         intent_tools = [''search_hotels'', ''book_hotel''],
         intent_parameters =
           [(''destination'',
             \<lparr> param_type = ''string'', param_description = ''City or location for hotel'',
               param_question = ''Which city do you need a hotel in?'',
               param_required = True \<rparr>),
            (''days'',
             \<lparr> param_type = ''int'', param_description = ''Number of days to stay'',
               param_question = ''How many days will you be staying?'',
               param_required = True \<rparr>)] \<rparr>),
      (''plan_vacation'',
       \<lparr> intent_description = ''Plan a complete vacation with flights, hotel, and weather'',
         intent_tools = [''search_flights'', ''search_hotels'', ''get_weather'',
                         ''book_flight'', ''book_hotel''],
         intent_parameters =
           [(''origin'',
             \<lparr> param_type = ''string'', param_description = ''Where you're traveling from'',
               param_question = ''Where are you traveling from?'',
               param_required = True \<rparr>),
            (''destination'',
             \<lparr> param_type = ''string'', param_description = ''Vacation destination'',
               param_question = ''Where would you like to go on vacation?'',
               param_required = True \<rparr>),
            (''date'',
             \<lparr> param_type = ''date'', param_description = ''Travel start date'',
               param_question = ''When would you like to start your vacation?'',
               param_required = True \<rparr>),
            (''days'',
             \<lparr> param_type = ''int'', param_description = ''Length of vacation'',
               param_question = ''How many days will your vacation be?'',
               param_required = True \<rparr>)] \<rparr>)]"

definition get_intent_config :: "string \<Rightarrow> intent_config option" where
  "get_intent_config intent_name = map_of INTENTS intent_name"

definition get_tool_config :: "string \<Rightarrow> tool_config option" where
  "get_tool_config tool_name = map_of TOOLS tool_name"

definition get_available_intents :: "string list" where
  "get_available_intents = map fst INTENTS"

definition get_parameter_question :: "string option \<Rightarrow> string \<Rightarrow> string" where
  "get_parameter_question intent_name param_name =
     (let fallback = ''Could you please provide the '' @ param_name @ ''?''
      in case intent_name of
           None \<Rightarrow> fallback
         | Some i \<Rightarrow>
             (case get_intent_config i of
                None \<Rightarrow> fallback
              | Some ic \<Rightarrow>
                  (case map_of (intent_parameters ic) param_name of
                     None \<Rightarrow> fallback
                   | Some pc \<Rightarrow> param_question pc)))"

subsection \<open>The batch scheduler\<close>

text \<open>
  \<^verbatim>\<open>get_tool_execution_order\<close> keeps the unscheduled tools in a Python \<^verbatim>\<open>set\<close>, whose
  iteration order is decided by the hashes of its elements. The order is a parameter of
  the model: \<open>h\<close> gives every tool name its place, and a set is iterated in the order of
  \<open>h\<close> (elements with the same place in insertion order).
\<close>

definition set_iter :: "(string \<Rightarrow> nat) \<Rightarrow> string list \<Rightarrow> string list" where
  "set_iter h xs = sort_key h xs"

definition tool_ready :: "string list list \<Rightarrow> string \<Rightarrow> bool" where
  \<comment> \<open>the body of the \<^verbatim>\<open>for tool in remaining_tools\<close> loop: is the tool appended?\<close>
  "tool_ready execution_order tool =
     (case get_tool_config tool of
        None \<Rightarrow> False
      | Some tc \<Rightarrow>
          (let requires = (case tool_requires tc of None \<Rightarrow> [] | Some r \<Rightarrow> r)
           in list_all (\<lambda>dep. dep \<in> set (concat execution_order)) requires))"

definition next_batch :: "(string \<Rightarrow> nat) \<Rightarrow> string list \<Rightarrow> string list list \<Rightarrow> string list" where
  "next_batch h remaining_tools execution_order =
     (let ready_tools = filter (tool_ready execution_order) (set_iter h remaining_tools)
      in if ready_tools = [] then take 1 (set_iter h remaining_tools) else ready_tools)"

function schedule_loop :: "(string \<Rightarrow> nat) \<Rightarrow> string list \<Rightarrow> string list list \<Rightarrow> string list list" where
  "schedule_loop h remaining_tools execution_order =
     (if remaining_tools = [] then execution_order
      else schedule_loop h
             (filter (\<lambda>t. t \<notin> set (next_batch h remaining_tools execution_order)) remaining_tools)
             (execution_order @ [next_batch h remaining_tools execution_order]))"
  by pat_completeness auto

text \<open>Every pass of the loop schedules at least one tool, so the loop ends.\<close>

termination schedule_loop
proof (relation "measure (\<lambda>(h, remaining_tools, execution_order). length remaining_tools)")
  show "wf (measure (\<lambda>(h :: string \<Rightarrow> nat, remaining_tools :: string list,
                        execution_order :: string list list). length remaining_tools))"
    by simp
next
  fix h :: "string \<Rightarrow> nat" and remaining_tools :: "string list"
    and execution_order :: "string list list"
  assume ne: "remaining_tools \<noteq> []"
  let ?b = "next_batch h remaining_tools execution_order"
  have it: "set (set_iter h remaining_tools) = set remaining_tools"
    by (simp add: set_iter_def)
  have "set_iter h remaining_tools \<noteq> []"
    using ne it by (metis set_empty)
  then have b_ne: "?b \<noteq> []"
    by (simp add: next_batch_def Let_def)
  have b_sub: "set ?b \<subseteq> set remaining_tools"
    using it by (auto simp: next_batch_def Let_def dest: in_set_takeD)
  from b_ne obtain x where x: "x \<in> set ?b"
    by (cases ?b) auto
  with b_sub have "x \<in> set remaining_tools" by blast
  with x have "length (filter (\<lambda>t. t \<notin> set ?b) remaining_tools) < length remaining_tools"
    by (intro length_filter_less[of x]) auto
  then show "((h, filter (\<lambda>t. t \<notin> set ?b) remaining_tools, execution_order @ [?b]),
              (h, remaining_tools, execution_order))
             \<in> measure (\<lambda>(h, remaining_tools, execution_order). length remaining_tools)"
    by simp
qed

definition get_tool_execution_order :: "(string \<Rightarrow> nat) \<Rightarrow> string \<Rightarrow> string list list" where
  "get_tool_execution_order h intent_name =
     (case get_intent_config intent_name of
        None \<Rightarrow> []
      | Some ic \<Rightarrow>
          (if intent_tools ic = [] then []
           else schedule_loop h (remdups (intent_tools ic)) []))"

section \<open>Tool choosing (agents/tool\_choosing\_agent.py)\<close>

definition tool_choosing :: "(string \<Rightarrow> nat) \<Rightarrow> dialog_state \<Rightarrow> node \<times> dialog_state" where
  "tool_choosing h state =
     (case current_intent state of
        None \<Rightarrow>
          (Supervisor,
           state \<lparr> selected_tools := [],
                   dialog_context := empty_context
                     \<lparr> context_error := Some ''No intent to process'' \<rparr> \<rparr>)
      | Some intent_name \<Rightarrow>
          (if intent_name = [] then
             (Supervisor,
              state \<lparr> selected_tools := [],
                      dialog_context := empty_context
                        \<lparr> context_error := Some ''No intent to process'' \<rparr> \<rparr>)
           else
             (case get_intent_config intent_name of
                None \<Rightarrow>
                  (Supervisor,
                   state \<lparr> selected_tools := [],
                           dialog_context := empty_context
                             \<lparr> context_error := Some (''Unknown intent: '' @ intent_name) \<rparr> \<rparr>)
              | Some ic \<Rightarrow>
                  (Supervisor,
                   state \<lparr> selected_tools := intent_tools ic,
                           dialog_context := empty_context
                             \<lparr> required_parameters := Some (map fst (intent_parameters ic)),
                               tool_execution_order :=
                                 Some (get_tool_execution_order h intent_name),
                               current_tool_batch := Some 0,
                               completed_tools := Some [] \<rparr> \<rparr>))))"

section \<open>Slot filling (agents/input\_parameter\_agent.py)\<close>

text \<open>
  The language model is outside the program. Its answer to the extraction prompt is an
  argument of the model: \<open>Some d\<close> is the dictionary that \<^verbatim>\<open>json.loads\<close> returned,
  \<open>None\<close> is any exception inside the \<^verbatim>\<open>try\<close> block (no answer, no JSON).
\<close>

definition extract_parameters ::
    "pvalue dict option \<Rightarrow> string option \<Rightarrow> string list \<Rightarrow> pvalue dict" where
  "extract_parameters llm_result intent_name required_params =
     (case intent_name of
        None \<Rightarrow> []
      | Some i \<Rightarrow>
          (case get_intent_config i of
             None \<Rightarrow> []
           | Some ic \<Rightarrow>
               (case llm_result of
                  None \<Rightarrow> []
                | Some result \<Rightarrow> filter (\<lambda>kv. fst kv \<in> set required_params) result)))"

fun join :: "string \<Rightarrow> string list \<Rightarrow> string" where
  "join sep [] = []"
| "join sep [x] = x"
| "join sep (x # y # ys) = x @ sep @ join sep (y # ys)"

definition generate_clarification_question :: "string option \<Rightarrow> string list \<Rightarrow> string" where
  "generate_clarification_question intent_name missing_params =
     (if missing_params = [] then
        ''I need some additional information to help you. Could you please provide more details?''
      else
        let questions = map (get_parameter_question intent_name) missing_params
        in if length missing_params = 1 then
             ''I need one more detail: '' @ questions ! 0
           else if length missing_params = 2 then
             ''I need two more details: '' @ questions ! 0 @ '' and '' @ questions ! 1
           else
             ''I need a few more details: '' @ join '', '' (butlast questions)
               @ '', and '' @ last questions)"

definition failure_msg :: "string \<Rightarrow> string" where
  "failure_msg param =
     ''I've tried several times to get the '' @ param
     @ '' from you, but I'm still not clear on what you need. ''
     @ ''Could you please start over with a complete request? ''
     @ ''For example: 'Book a flight from New York to Paris on December 25th'' @ [CHR 0x27]"

definition retries_of :: "int dict \<Rightarrow> string \<Rightarrow> int" where
  \<comment> \<open>\<^verbatim>\<open>retry_counts.get(param, 0)\<close>\<close>
  "retries_of counts param = (case map_of counts param of None \<Rightarrow> 0 | Some n \<Rightarrow> n)"

definition increment_retries :: "int dict \<Rightarrow> string list \<Rightarrow> int dict" where
  "increment_retries counts missing_params =
     fold (\<lambda>param acc. AList.update param (retries_of acc param + 1) acc) missing_params counts"

definition latest_user_message :: "message list \<Rightarrow> string option" where
  "latest_user_message msgs =
     (case filter (\<lambda>m. role m = ''user'') (rev msgs) of
        [] \<Rightarrow> None
      | m # rest \<Rightarrow> Some (content m))"

definition input_parameter :: "pvalue dict option \<Rightarrow> dialog_state \<Rightarrow> node \<times> dialog_state" where
  "input_parameter llm_result state =
     (let current_params = extracted_parameters state;
          ctx = dialog_context state;
          required = required_of state;
          user_message = latest_user_message (messages state)
      in if user_message = None \<or> user_message = Some [] then
           (Supervisor,
            state \<lparr> dialog_context := empty_context
                      \<lparr> context_error := Some ''No user message to process'' \<rparr> \<rparr>)
         else
           let extracted_params = extract_parameters llm_result (current_intent state) required;
               updated_params = dict_merge current_params extracted_params;
               missing_params = filter (not_get updated_params) required;
               counts = counts_of state;
               limit = limit_of state
           in case find (\<lambda>param. limit \<le> retries_of counts param) missing_params of
                Some param \<Rightarrow>
                  (Generation,
                   state \<lparr> extracted_parameters := updated_params,
                           dialog_context := ctx
                             \<lparr> parameter_collection_failed := Some True,
                               failed_parameter := Some param,
                               last_response_type := Some ''parameter_failure'' \<rparr>,
                           messages := messages state @ [assistant (failure_msg param)] \<rparr>)
              | None \<Rightarrow>
                  (if missing_params \<noteq> [] \<and> extracted_params = [] then
                     (Generation,
                      state \<lparr> extracted_parameters := updated_params,
                              dialog_context := ctx
                                \<lparr> needs_clarification := Some True,
                                  last_missing_params := Some missing_params,
                                  retry_counts := Some (increment_retries counts missing_params),
                                  last_response_type := Some ''clarification'' \<rparr>,
                              messages := messages state
                                @ [assistant (generate_clarification_question
                                                (current_intent state) missing_params)] \<rparr>)
                   else
                     (Supervisor,
                      state \<lparr> extracted_parameters := updated_params,
                              dialog_context := ctx
                                \<lparr> last_missing_params := Some missing_params,
                                  needs_clarification := Some False,
                                  last_response_type := Some ''parameter_progress'' \<rparr> \<rparr>)))"

section \<open>Tool execution (tools/tool\_registry.py, agents/tool\_executing\_agent.py)\<close>

text \<open>
  A tool is a Python function called with keyword arguments: it returns a value or
  raises. The registry loads it from its module path; the loader is an argument of the
  model. \<open>Inr (Some f)\<close> is the loaded function, \<open>Inr None\<close> is a failure that
  \<^verbatim>\<open>get_tool\<close> catches (\<^verbatim>\<open>ImportError\<close>, \<^verbatim>\<open>AttributeError\<close>, \<^verbatim>\<open>ValueError\<close>) and
  \<open>Inl e\<close> is any other exception, which leaves \<^verbatim>\<open>get_tool\<close>.
\<close>

datatype tool_outcome = Returns pvalue | Raises string

type_synonym tool_fun = "pvalue dict \<Rightarrow> tool_outcome"

type_synonym loader = "string \<Rightarrow> string + tool_fun option"

definition get_tool :: "loader \<Rightarrow> string \<Rightarrow> string + tool_fun option" where
  "get_tool load tool_name =
     (case get_tool_config tool_name of
        None \<Rightarrow> Inr None
      | Some tc \<Rightarrow> (if tool_function tc = [] then Inr None else load (tool_function tc)))"

definition validate_tool_parameters :: "string \<Rightarrow> pvalue dict \<Rightarrow> string option" where
  \<comment> \<open>\<open>None\<close> is \<^verbatim>\<open>{"valid": True}\<close>, \<open>Some e\<close> is \<^verbatim>\<open>{"valid": False, "error": e}\<close>\<close>
  "validate_tool_parameters tool_name params =
     (case get_tool_config tool_name of
        None \<Rightarrow> Some (''Unknown tool: '' @ tool_name)
      | Some tc \<Rightarrow>
          (case find (not_get params) (tool_parameters tc) of
             Some param \<Rightarrow> Some (''Missing required parameter: '' @ param)
           | None \<Rightarrow> None))"

definition execute_tool :: "loader \<Rightarrow> string \<Rightarrow> pvalue dict \<Rightarrow> string + pvalue dict" where
  "execute_tool load tool_name params =
     (case get_tool load tool_name of
        Inl e \<Rightarrow> Inl e
      | Inr None \<Rightarrow> Inr [(''error'', PStr (''Tool '' @ tool_name @ '' not found''))]
      | Inr (Some tool_func) \<Rightarrow>
          (case get_tool_config tool_name of
             None \<Rightarrow> Inr [(''error'', PStr (''Tool configuration not found: '' @ tool_name))]
           | Some tc \<Rightarrow>
               (let kwargs = map (\<lambda>param. (param, case map_of params param of
                                                     None \<Rightarrow> PNone | Some v \<Rightarrow> v))
                                 (tool_parameters tc)
                in case tool_func kwargs of
                     Raises e \<Rightarrow> Inr [(''error'', PStr (''Tool execution failed: '' @ e))]
                   | Returns (PDict d) \<Rightarrow> Inr d
                   | Returns r \<Rightarrow> Inr [(''result'', r)])))"

text \<open>
  One pass of the loop over the tools of the current batch. The accumulator is
  \<^verbatim>\<open>(batch_results, batch_success, completed_tools)\<close>.
\<close>

definition run_tool ::
    "loader \<Rightarrow> pvalue dict \<Rightarrow> string \<Rightarrow> pvalue dict dict \<times> bool \<times> string list
       \<Rightarrow> pvalue dict dict \<times> bool \<times> string list" where
  "run_tool load params tool_name acc =
     (case acc of (batch_results, batch_success, completed) \<Rightarrow>
        (case validate_tool_parameters tool_name params of
           Some err \<Rightarrow>
             (AList.update tool_name
                [(''error'', PStr (''Parameter validation failed: '' @ err)),
                 (''success'', PBool False)] batch_results,
              False, completed)
         | None \<Rightarrow>
             (case execute_tool load tool_name params of
                Inl e \<Rightarrow>
                  (AList.update tool_name
                     [(''error'', PStr e), (''success'', PBool False)] batch_results,
                   False, completed)
              | Inr result \<Rightarrow>
                  (AList.update tool_name
                     (dict_merge result [(''success'', PBool True)]) batch_results,
                   batch_success, completed @ [tool_name]))))"

definition tool_executing :: "loader \<Rightarrow> dialog_state \<Rightarrow> node \<times> dialog_state" where
  "tool_executing load state =
     (let params = extracted_parameters state;
          ctx = dialog_context state;
          required = required_of state
      in if selected_tools state = [] then
           (Supervisor,
            state \<lparr> tool_results := [],
                    dialog_context := ctx \<lparr> execution_error := Some ''No tools selected'' \<rparr> \<rparr>)
         else if filter (not_get params) required \<noteq> [] then
           (Supervisor,
            state \<lparr> dialog_context := ctx
                      \<lparr> execution_blocked := Some True,
                        missing_parameters := Some (filter (not_get params) required),
                        last_response_type := Some ''parameter_validation_failed'' \<rparr> \<rparr>)
         else
           let order = (case tool_execution_order ctx of None \<Rightarrow> [] | Some ord \<Rightarrow> ord);
               current_batch = (case current_tool_batch ctx of None \<Rightarrow> 0 | Some i \<Rightarrow> i);
               completed = (case completed_tools ctx of None \<Rightarrow> [] | Some c \<Rightarrow> c)
           in if length order \<le> current_batch then
                (Supervisor,
                 state \<lparr> dialog_context := ctx \<lparr> all_tools_completed := Some True \<rparr> \<rparr>)
              else
                (case fold (run_tool load params) (order ! current_batch) ([], True, completed) of
                   (batch_results, batch_success, completed') \<Rightarrow>
                     (Supervisor,
                      state \<lparr> tool_results := dict_merge (tool_results state) batch_results,
                              dialog_context := ctx
                                \<lparr> current_tool_batch :=
                                    Some (if batch_success then current_batch + 1
                                          else current_batch),
                                  completed_tools := Some completed',
                                  batch_execution_success := Some batch_success \<rparr> \<rparr>)))"

section \<open>Response generation (agents/generation\_agent.py)\<close>

definition has_errors :: "pvalue dict dict \<Rightarrow> bool" where
  "has_errors results =
     list_ex (\<lambda>kv. (case map_of (snd kv) ''error'' of None \<Rightarrow> False | Some v \<Rightarrow> truthy v)
                  \<or> (case map_of (snd kv) ''success'' of None \<Rightarrow> False | Some v \<Rightarrow> \<not> truthy v))
             results"

definition replace_underscores :: "string \<Rightarrow> string" where
  "replace_underscores s = map (\<lambda>c. if c = CHR ''_'' then CHR '' '' else c) s"

text \<open>
  The generated text is the language model's; \<open>None\<close> is a failed call. A call outside a
  \<^verbatim>\<open>try\<close> block that fails ends the agent with the exception (\<open>Inl\<close>).
\<close>

definition generate_response_from_results ::
    "string option \<Rightarrow> string option \<Rightarrow> pvalue dict dict \<Rightarrow> string + string" where
  "generate_response_from_results llm intent_name results =
     (case intent_name of
        None \<Rightarrow> Inl ''AttributeError''
      | Some i \<Rightarrow>
          (case llm of
             Some text \<Rightarrow> Inr text
           | None \<Rightarrow>
               (if has_errors results then
                  Inr (''I encountered some issues with your '' @ replace_underscores i
                       @ '' request. Please try again.'')
                else
                  Inr (''Great! I've completed your '' @ replace_underscores i
                       @ '' request.''))))"

definition generate_general_response :: "string option \<Rightarrow> string + string" where
  "generate_general_response llm =
     (case llm of None \<Rightarrow> Inl ''LLM call failed'' | Some text \<Rightarrow> Inr text)"

definition generation :: "string option \<Rightarrow> dialog_state \<Rightarrow> string + node \<times> dialog_state" where
  "generation llm state =
     (let msgs = messages state
      in if msgs \<noteq> [] \<and> role (last msgs) = ''assistant'' then Inr (End_node, state)
         else if tool_results state \<noteq> [] then
           (case generate_response_from_results llm (current_intent state) (tool_results state) of
              Inl e \<Rightarrow> Inl e
            | Inr response \<Rightarrow>
                Inr (if all_tools_completed (dialog_context state) = Some True
                     then End_node else Supervisor,
                     state \<lparr> messages := msgs @ [assistant response] \<rparr>))
         else
           (case generate_general_response llm of
              Inl e \<Rightarrow> Inl e
            | Inr response \<Rightarrow>
                Inr (Supervisor, state \<lparr> messages := msgs @ [assistant response] \<rparr>)))"

section \<open>The router (agents/supervisor\_agent.py)\<close>

definition INTENT_DETECTION_KEYWORDS :: "string list dict" where
  "INTENT_DETECTION_KEYWORDS =
     [(''book_flight'',
       [''book flight'', ''flight booking'', ''airline ticket'', ''plane ticket'',
        ''fly to'', ''flight to'', ''book airplane'', ''air travel'']),
      (''book_hotel'',
       [''book hotel'', ''hotel booking'', ''hotel room'', ''accommodation'',
        ''stay in'', ''hotel in'', ''reserve hotel'']),
      (''plan_vacation'',
       [''plan vacation'', ''vacation planning'', ''trip planning'', ''holiday planning'',
        ''organize trip'', ''plan trip'', ''vacation package'', ''plan my vacation''])]"

definition detect_intent_from_keywords :: "string \<Rightarrow> string option" where
  "detect_intent_from_keywords user_message =
     (let user_message_lower = lower user_message;
          scored = map (\<lambda>kv. (fst kv, length (filter (\<lambda>keyword. py_in keyword user_message_lower)
                                                     (snd kv))))
                       INTENT_DETECTION_KEYWORDS;
          intent_scores = filter (\<lambda>kv. 0 < snd kv) scored
      in case intent_scores of
           [] \<Rightarrow> None
         | x # xs \<Rightarrow> Some (fst (fold (\<lambda>kv best. if snd best < snd kv then kv else best) xs x)))"

definition detect_user_intent :: "string option \<Rightarrow> message list \<Rightarrow> string option" where
  "detect_user_intent llm msgs =
     (if msgs = [] then None
      else if role (last msgs) = ''user'' then
        (case detect_intent_from_keywords (content (last msgs)) of
           Some detected \<Rightarrow> Some detected
         | None \<Rightarrow>
             (case llm of
                None \<Rightarrow> None
              | Some answer \<Rightarrow>
                  (let intent_name = lower (strip answer)
                   in if intent_name \<in> set (get_available_intents @ [''general''])
                      then (if intent_name = ''general'' then None else Some intent_name)
                      else None)))
      else None)"

definition truthy_intent :: "string option \<Rightarrow> bool" where
  "truthy_intent i = (case i of None \<Rightarrow> False | Some n \<Rightarrow> n \<noteq> [])"

definition decide_next_action :: "dialog_state \<Rightarrow> node" where
  "decide_next_action state =
     (let selected = selected_tools state;
          results = tool_results state;
          params = extracted_parameters state;
          ctx = dialog_context state;
          required = required_of state
      in if truthy_intent (current_intent state) \<and> selected = [] then Tool_choosing
         else if selected \<noteq> [] \<and> truthy_intent (current_intent state)
                 \<and> filter (not_get params) required \<noteq> [] then Input_parameter
         else if selected \<noteq> [] \<and> results = []
                 \<and> list_all (\<lambda>p. \<not> not_get params p) required then Tool_executing
         else if results \<noteq> [] then
           (if last_response_type ctx = Some ''generated'' then End_node else Generation)
         else End_node)"

definition should_end_conversation :: "dialog_state \<Rightarrow> bool" where
  "should_end_conversation state =
     (if end_conversation (dialog_context state) = Some True then True
      else if messages state = [] then False
      else any_in [''bye'', ''goodbye'', ''exit'', ''quit'', ''thanks'', ''thank you'']
                  (lower (content (last (messages state)))))"

definition intent_name_for :: "string \<Rightarrow> string" where
  "intent_name_for i =
     (case get_intent_config i of None \<Rightarrow> i | Some ic \<Rightarrow> intent_description ic)"

definition request_intent_switch_confirmation ::
    "dialog_state \<Rightarrow> string \<Rightarrow> string \<Rightarrow> node \<times> dialog_state" where
  "request_intent_switch_confirmation state current new =
     (let current_name = intent_name_for current;
          new_name = intent_name_for new;
          confirmation_msg =
            ''I notice you want to start '' @ new_name @ '', but we were working on ''
            @ current_name @ ''. Would you like me to pause the '' @ current_name
            @ '' and start '' @ new_name
            @ ''? (Reply with 'yes' to switch or 'no' to continue with '' @ current_name @ '')''
      in (End_node,
          state \<lparr> messages := messages state @ [assistant confirmation_msg],
                  dialog_context := (dialog_context state)
                    \<lparr> awaiting_confirmation :=
                        Some \<lparr> conf_type = ''intent_switch'', conf_from = current,
                               conf_to = new \<rparr>,
                      last_response_type := Some ''confirmation_request'' \<rparr> \<rparr>))"

definition supervisor :: "string option \<Rightarrow> dialog_state \<Rightarrow> node \<times> dialog_state" where
  "supervisor llm state =
     (if should_end_conversation state then (End_node, state)
      else
        case awaiting_confirmation (dialog_context state) of
          Some pending \<Rightarrow> handle_intent_switch_confirmation state pending
        | None \<Rightarrow>
            (case (current_intent state, detect_user_intent llm (messages state)) of
               (None, Some detected) \<Rightarrow>
                 (Tool_choosing, state \<lparr> current_intent := Some detected \<rparr>)
             | (Some current, Some detected) \<Rightarrow>
                 (if detected = current then
                    (if decide_next_action state = Tool_choosing
                     then (Tool_choosing,
                           state \<lparr> current_intent :=
                                     (if detected = [] then Some current else Some detected) \<rparr>)
                     else (decide_next_action state, state))
                  else request_intent_switch_confirmation state current detected)
             | (current, None) \<Rightarrow>
                 (if decide_next_action state = Tool_choosing
                  then (Tool_choosing, state \<lparr> current_intent := current \<rparr>)
                  else (decide_next_action state, state))))"

section \<open>One turn of the graph (main.py)\<close>

text \<open>
  The graph enters at the router and follows the \<^verbatim>\<open>goto\<close> of each agent until one names
  the end. What lies outside the program is gathered in \<open>world\<close>: the answers of the
  language model to the three prompts, as functions of the state the prompt is built
  from, the iteration order of sets and the loader of tool functions. \<open>fuel\<close> bounds the
  number of agent calls, as the graph's \<^verbatim>\<open>recursion_limit\<close> does.
\<close>

record world =
  intent_llm :: "dialog_state \<Rightarrow> string option"
  extract_llm :: "dialog_state \<Rightarrow> pvalue dict option"
  generation_llm :: "dialog_state \<Rightarrow> string option"
  set_order :: "string \<Rightarrow> nat"
  tool_loader :: loader

definition call_agent :: "world \<Rightarrow> node \<Rightarrow> dialog_state \<Rightarrow> string + node \<times> dialog_state" where
  "call_agent w n state =
     (case n of
        Supervisor \<Rightarrow> Inr (supervisor (intent_llm w state) state)
      | Tool_choosing \<Rightarrow> Inr (tool_choosing (set_order w) state)
      | Input_parameter \<Rightarrow> Inr (input_parameter (extract_llm w state) state)
      | Tool_executing \<Rightarrow> Inr (tool_executing (tool_loader w) state)
      | Generation \<Rightarrow> generation (generation_llm w state) state
      | End_node \<Rightarrow> Inr (End_node, state))"

fun run_graph :: "nat \<Rightarrow> world \<Rightarrow> node \<Rightarrow> dialog_state \<Rightarrow> string + dialog_state" where
  "run_graph fuel w End_node state = Inr state"
| "run_graph 0 w n state = Inl ''GraphRecursionError''"
| "run_graph (Suc fuel) w n state =
     (case call_agent w n state of
        Inl e \<Rightarrow> Inl e
      | Inr (n', state') \<Rightarrow> run_graph fuel w n' state')"

text \<open>
  Between two runs of the graph \<^verbatim>\<open>run_chat\<close> builds the input state: the first
  utterance starts an empty session, a later one is appended to the messages of the
  stored state and resets two keys of the context.
\<close>

definition first_state :: "string \<Rightarrow> dialog_state" where
  "first_state user_input =
     \<lparr> messages = [user user_input],
       current_intent = None,
       paused_intents = [],
       extracted_parameters = [],
       selected_tools = [],
       tool_results = [],
       dialog_context = empty_context \<lparr> last_response_type := Some ''user_input'' \<rparr> \<rparr>"

definition user_says :: "string \<Rightarrow> dialog_state \<Rightarrow> dialog_state" where
  "user_says user_input state =
     state \<lparr> messages := messages state @ [user user_input],
             dialog_context := (dialog_context state)
               \<lparr> needs_clarification := Some False,
                 last_response_type := Some ''user_input'' \<rparr> \<rparr>"

definition chat_turn :: "world \<Rightarrow> string \<Rightarrow> dialog_state option \<Rightarrow> string + dialog_state" where
  "chat_turn w user_input stored =
     run_graph 50 w Supervisor
       (case stored of None \<Rightarrow> first_state user_input
                     | Some state \<Rightarrow> user_says user_input state)"

fun chat :: "world \<Rightarrow> string list \<Rightarrow> dialog_state option \<Rightarrow> string + dialog_state option" where
  "chat w [] stored = Inr stored"
| "chat w (user_input # rest) stored =
     (case chat_turn w user_input stored of
        Inl e \<Rightarrow> Inl e
      | Inr state \<Rightarrow> chat w rest (Some state))"

text \<open>
  A turn of the slot filler alone: the user's utterance arrives and the slot filler
  runs on it. \<open>no_progress_turns n\<close> is \<open>n\<close> such turns in a row with the same utterance
  and the same answer of the language model.
\<close>

definition slot_filler_turn ::
    "string \<Rightarrow> pvalue dict option \<Rightarrow> dialog_state \<Rightarrow> node \<times> dialog_state" where
  "slot_filler_turn user_input llm_result state =
     input_parameter llm_result (user_says user_input state)"

fun no_progress_turns :: "nat \<Rightarrow> string \<Rightarrow> pvalue dict option \<Rightarrow> dialog_state \<Rightarrow> dialog_state" where
  "no_progress_turns 0 user_input llm_result state = state"
| "no_progress_turns (Suc n) user_input llm_result state =
     snd (slot_filler_turn user_input llm_result
            (no_progress_turns n user_input llm_result state))"

text \<open>
  The tools of tools/travel\_tools.py, as far as the executor can see them: the names of
  their parameters. A call with a keyword that the function does not have raises
  \<^verbatim>\<open>TypeError\<close>; otherwise the tool returns a dictionary with the status
  \<^verbatim>\<open>"success"\<close>.
\<close>

definition travel_tool_signatures :: "string list dict" where
  "travel_tool_signatures =
     [(''travel_tools.search_flights'', [''origin'', ''destination'', ''date'']),
      (''travel_tools.book_flight'', [''origin'', ''destination'', ''date'']),
      (''travel_tools.book_hotel'', [''city'', ''days'']),
      (''travel_tools.search_hotels'', [''destination'', ''days'']),
      (''travel_tools.get_weather'', [''destination'', ''date''])]"

definition call_with_kwargs :: "string list \<Rightarrow> tool_fun" where
  "call_with_kwargs signature kwargs =
     (case find (\<lambda>k. k \<notin> set signature) (map fst kwargs) of
        Some k \<Rightarrow> Raises (''got an unexpected keyword argument '' @ k)
      | None \<Rightarrow>
          (case find (\<lambda>p. p \<notin> set (map fst kwargs)) signature of
             Some p \<Rightarrow> Raises (''missing 1 required positional argument: '' @ p)
           | None \<Rightarrow> Returns (PDict ((''status'', PStr ''success'') # kwargs))))"

definition travel_tools :: loader where
  "travel_tools path =
     (case map_of travel_tool_signatures path of
        None \<Rightarrow> Inr None
      | Some signature \<Rightarrow> Inr (Some (call_with_kwargs signature)))"

section \<open>Scenarios\<close>

text \<open>
  A session in the middle of a flight booking, with a hotel booking paused earlier, in
  which the user has just answered the question whether to switch to the hotel booking.
\<close>

definition switch_pending :: confirmation where
  "switch_pending =
     \<lparr> conf_type = ''intent_switch'', conf_from = ''book_flight'', conf_to = ''book_hotel'' \<rparr>"

definition switch_example :: dialog_state where
  "switch_example =
     \<lparr> messages = [user ''I want to book a flight'', user ''book a hotel room'',
                   assistant ''Would you like me to pause?'', user ''yes''],
       current_intent = Some ''book_flight'',
       paused_intents =
         [\<lparr> intent = ''book_hotel'', parameters = [(''destination'', PStr ''Paris'')],
            tools = [''search_hotels'', ''book_hotel''],
            paused_at = ''parameter_collection'' \<rparr>],
       extracted_parameters = [(''origin'', PStr ''NYC'')],
       selected_tools = [''search_flights'', ''book_flight''],
       tool_results = [],
       dialog_context = empty_context
         \<lparr> required_parameters := Some [''origin'', ''destination'', ''date''],
           awaiting_confirmation := Some switch_pending \<rparr> \<rparr>"

text \<open>The same session when the user's answer is "Definitely not".\<close>

definition definitely_not :: dialog_state where
  "definitely_not =
     switch_example \<lparr> messages := [user ''book a hotel room'',
                                   assistant ''Would you like me to pause?'',
                                   user ''Definitely not''] \<rparr>"

text \<open>
  A flight booking whose origin is already known, and an answer of the language model
  that names the origin again, a missing parameter and a key that is no parameter.
\<close>

definition overwrite_example :: dialog_state where
  "overwrite_example =
     \<lparr> messages = [user ''I want to book a flight from NYC'', assistant ''Where to?'',
                   user ''to Paris, leaving from Boston''],
       current_intent = Some ''book_flight'',
       paused_intents = [],
       extracted_parameters = [(''origin'', PStr ''NYC'')],
       selected_tools = [''search_flights'', ''book_flight''],
       tool_results = [],
       dialog_context = empty_context
         \<lparr> required_parameters := Some [''origin'', ''destination'', ''date''],
           tool_execution_order := Some [[''search_flights''], [''book_flight'']],
           current_tool_batch := Some 0, completed_tools := Some [] \<rparr> \<rparr>"

definition overwrite_answer :: "pvalue dict" where
  "overwrite_answer = [(''origin'', PStr ''Boston''), (''destination'', PStr ''Paris''),
                       (''seat'', PStr ''aisle'')]"

text \<open>
  A user who asks for a hotel and then never names a city or a number of days: the
  language model recognises the hotel booking in the first utterance, finds no intent
  in the later ones and never extracts a parameter.
\<close>

definition stubborn_world :: world where
  "stubborn_world =
     \<lparr> intent_llm = (\<lambda>state. if content (last (messages state)) = ''Book a hotel''
                              then Some ''book_hotel'' else Some ''general''),
       extract_llm = (\<lambda>state. Some []),
       generation_llm = (\<lambda>state. Some ''Here is what I found.''),
       set_order = (\<lambda>tool. 0),
       tool_loader = travel_tools \<rparr>"

definition hotel_start :: dialog_state where
  "hotel_start =
     \<lparr> messages = [],
       current_intent = Some ''book_hotel'',
       paused_intents = [],
       extracted_parameters = [],
       selected_tools = [''search_hotels'', ''book_hotel''],
       tool_results = [],
       dialog_context = empty_context
         \<lparr> required_parameters := Some [''destination'', ''days''],
           tool_execution_order := Some [[''search_hotels''], [''book_hotel'']],
           current_tool_batch := Some 0, completed_tools := Some [] \<rparr> \<rparr>"

text \<open>What a conversation ended with: the context and the messages of its last state.\<close>

definition final_context :: "string + dialog_state option \<Rightarrow> dialog_context option" where
  "final_context res = (case res of Inr (Some state) \<Rightarrow> Some (dialog_context state) | _ \<Rightarrow> None)"

definition final_messages :: "string + dialog_state option \<Rightarrow> message list" where
  "final_messages res = (case res of Inr (Some state) \<Rightarrow> messages state | _ \<Rightarrow> [])"

text \<open>
  The scheduling rule in the words of the specification: a tool may be scheduled when
  every tag it requires is produced (\<^verbatim>\<open>"returns"\<close>) by a tool of the batches
  scheduled so far.
\<close>

definition produced_tags :: "string list list \<Rightarrow> string list" where
  "produced_tags batches =
     concat (map (\<lambda>t. case get_tool_config t of None \<Rightarrow> [] | Some tc \<Rightarrow> [tool_returns tc])
                 (concat batches))"

definition dependencies_satisfied :: "string list list \<Rightarrow> string \<Rightarrow> bool" where
  "dependencies_satisfied batches tool =
     (case get_tool_config tool of
        None \<Rightarrow> False
      | Some tc \<Rightarrow>
          list_all (\<lambda>dep. dep \<in> set (produced_tags batches))
                   (case tool_requires tc of None \<Rightarrow> [] | Some r \<Rightarrow> r))"

definition final_state :: "string + dialog_state option \<Rightarrow> dialog_state option" where
  "final_state res = (case res of Inr stored \<Rightarrow> stored | Inl e \<Rightarrow> None)"

definition still_missing :: "dialog_state \<Rightarrow> string list" where
  "still_missing state = filter (not_get (extracted_parameters state)) (required_of state)"

text \<open>
  The flight booking of the specification: one utterance names origin, destination and
  date, the language model recognises the intent and extracts the three parameters.
\<close>

definition flight_world :: world where
  "flight_world =
     \<lparr> intent_llm = (\<lambda>state. Some ''book_flight''),
       extract_llm = (\<lambda>state. Some [(''origin'', PStr ''New York''),
                                    (''destination'', PStr ''Paris''),
                                    (''date'', PStr ''Dec 25'')]),
       generation_llm = (\<lambda>state. Some ''I found flights from New York to Paris on Dec 25.''),
       set_order = (\<lambda>tool. 0),
       tool_loader = travel_tools \<rparr>"

definition flight_request :: string where
  "flight_request = ''Book a flight from New York to Paris on Dec 25''"

text \<open>
  A hotel booking with all parameters known: before any tool has run, and with the
  search done and the booking batch next. A loader whose tools fail with an exception.
\<close>

definition hotel_ready :: dialog_state where
  "hotel_ready =
     \<lparr> messages = [user ''Book a hotel in Paris for 3 days''],
       current_intent = Some ''book_hotel'',
       paused_intents = [],
       extracted_parameters = [(''destination'', PStr ''Paris''), (''days'', PInt 3)],
       selected_tools = [''search_hotels'', ''book_hotel''],
       tool_results = [(''search_hotels'',
                        [(''status'', PStr ''success''), (''destination'', PStr ''Paris''),
                         (''days'', PInt 3), (''success'', PBool True)])],
       dialog_context = empty_context
         \<lparr> required_parameters := Some [''destination'', ''days''],
           tool_execution_order := Some [[''search_hotels''], [''book_hotel'']],
           current_tool_batch := Some 1, completed_tools := Some [''search_hotels''],
           batch_execution_success := Some True \<rparr> \<rparr>"

definition hotel_fresh :: dialog_state where
  "hotel_fresh =
     hotel_ready \<lparr> tool_results := [],
                   dialog_context := (dialog_context hotel_ready)
                     \<lparr> current_tool_batch := Some 0, completed_tools := Some [],
                       batch_execution_success := None \<rparr> \<rparr>"

definition failing_loader :: loader where
  "failing_loader path = Inr (Some (\<lambda>kwargs. Raises ''connection timed out''))"

(*SCENARIOS*)

section \<open>Intent switching: properties\<close>

text \<open>
  Claim C5. A confirmed switch from intent \<open>a\<close> to intent \<open>b\<close> routes to tool choosing
  and leaves a state in which the current intent is \<open>b\<close>, the extracted parameters, the
  selected tools and the tool results are empty, the retry counts are the empty
  dictionary, and the paused intents hold exactly one entry for \<open>a\<close>, which records the
  parameters and tools \<open>a\<close> had; the entries of all other intents are kept.
\<close>

theorem execute_intent_switch_resets:
  "fst (execute_intent_switch s a b) = Tool_choosing \<and>
   current_intent (snd (execute_intent_switch s a b)) = Some b \<and>
   extracted_parameters (snd (execute_intent_switch s a b)) = [] \<and>
   selected_tools (snd (execute_intent_switch s a b)) = [] \<and>
   tool_results (snd (execute_intent_switch s a b)) = [] \<and>
   retry_counts (dialog_context (snd (execute_intent_switch s a b))) = Some [] \<and>
   filter (\<lambda>e. intent e = a) (paused_intents (snd (execute_intent_switch s a b))) =
     [\<lparr> intent = a, parameters = extracted_parameters s, tools = selected_tools s,
        paused_at = ''parameter_collection'' \<rparr>] \<and>
   filter (\<lambda>e. intent e \<noteq> a) (paused_intents (snd (execute_intent_switch s a b))) =
     filter (\<lambda>e. intent e \<noteq> a) (paused_intents s)"
  by (simp add: execute_intent_switch_def Let_def empty_context_def filter_empty_conv)

theorem execute_intent_switch_resets_witness:
  "fst (execute_intent_switch switch_example ''book_flight'' ''book_hotel'') = Tool_choosing \<and>
   filter (\<lambda>e. intent e = ''book_flight'')
     (paused_intents (snd (execute_intent_switch switch_example ''book_flight'' ''book_hotel''))) =
     [\<lparr> intent = ''book_flight'', parameters = [(''origin'', PStr ''NYC'')],
        tools = [''search_flights'', ''book_flight''], paused_at = ''parameter_collection'' \<rparr>]"
  using execute_intent_switch_resets [of switch_example "''book_flight''" "''book_hotel''"]
  by (simp add: switch_example_def)

text \<open>
  Claim C2 says that a switch to an intent that is already paused restores its saved
  parameters and tools and removes its entry. In the scenario the hotel booking is
  paused with the destination Paris; after the user's "yes" the hotel booking starts
  with no parameters and no tools, and its paused entry is still there.
\<close>

theorem resume_counterexample:
  "fst (handle_intent_switch_confirmation switch_example switch_pending) = Tool_choosing \<and>
   extracted_parameters (snd (handle_intent_switch_confirmation switch_example switch_pending)) = [] \<and>
   selected_tools (snd (handle_intent_switch_confirmation switch_example switch_pending)) = [] \<and>
   paused_intents (snd (handle_intent_switch_confirmation switch_example switch_pending)) =
     [\<lparr> intent = ''book_hotel'', parameters = [(''destination'', PStr ''Paris'')],
        tools = [''search_hotels'', ''book_hotel''], paused_at = ''parameter_collection'' \<rparr>,
      \<lparr> intent = ''book_flight'', parameters = [(''origin'', PStr ''NYC'')],
        tools = [''search_flights'', ''book_flight''], paused_at = ''parameter_collection'' \<rparr>]"
  by code_simp

text \<open>
  Claim C2, amended. A confirmed switch from \<open>a\<close> to another intent \<open>b\<close> never reads
  the paused intents for \<open>b\<close>: the new intent starts with empty parameters and no
  selected tools, and whatever entries \<open>b\<close> has among the paused intents stay as they
  were.
\<close>

theorem switch_ignores_paused_target:
  assumes "b \<noteq> a"
  shows "extracted_parameters (snd (execute_intent_switch s a b)) = [] \<and>
         selected_tools (snd (execute_intent_switch s a b)) = [] \<and>
         filter (\<lambda>e. intent e = b) (paused_intents (snd (execute_intent_switch s a b))) =
           filter (\<lambda>e. intent e = b) (paused_intents s)"
proof -
  have "filter (\<lambda>e. intent e = b) (filter (\<lambda>e. intent e \<noteq> a) (paused_intents s)) =
        filter (\<lambda>e. intent e = b) (paused_intents s)"
    using assms by (induction "paused_intents s" arbitrary: s) (auto intro: filter_cong)
  then show ?thesis using assms
    by (simp add: execute_intent_switch_def Let_def)
qed

theorem switch_ignores_paused_target_witness:
  "''book_hotel'' \<noteq> ''book_flight'' \<and>
   extracted_parameters (snd (execute_intent_switch switch_example ''book_flight'' ''book_hotel'')) = [] \<and>
   filter (\<lambda>e. intent e = ''book_hotel'')
     (paused_intents (snd (execute_intent_switch switch_example ''book_flight'' ''book_hotel''))) =
     [\<lparr> intent = ''book_hotel'', parameters = [(''destination'', PStr ''Paris'')],
        tools = [''search_hotels'', ''book_hotel''], paused_at = ''parameter_collection'' \<rparr>]"
  using switch_ignores_paused_target [of "''book_hotel''" "''book_flight''" switch_example]
  by (simp add: switch_example_def)

section \<open>Response generation: properties\<close>

text \<open>
  Claim C9. When the last message of the session is already an assistant message, the
  response generator returns the end node with no update: the state, and with it the
  list of messages, is unchanged.
\<close>

theorem generation_pass_through:
  assumes "messages s \<noteq> []" and "role (last (messages s)) = ''assistant''"
  shows "generation llm s = Inr (End_node, s)"
  using assms by (simp add: generation_def Let_def)

theorem generation_pass_through_witness:
  "generation (Some ''Anything else?'')
     (switch_example \<lparr> messages := [user ''book a hotel'', assistant ''Which city?''] \<rparr>) =
   Inr (End_node, switch_example \<lparr> messages := [user ''book a hotel'', assistant ''Which city?''] \<rparr>)"
  using generation_pass_through
    [of "switch_example \<lparr> messages := [user ''book a hotel'', assistant ''Which city?''] \<rparr>"
        "Some ''Anything else?''"]
  by (simp add: assistant_def)

section \<open>Answering the switch question: properties\<close>

text \<open>
  Claim C10. While a switch is pending and the last message is the user's, the reply
  (lower-cased and stripped, as the handler reads it) executes the switch exactly when
  it contains one of "yes", "y", "switch", "pause"; these are tested before the negative
  words. The question is asked again, with the state otherwise untouched and so the
  proposal still pending, exactly when the reply contains none of the eight words. The
  handler runs only on turns that the router's farewell check has not already ended.
\<close>

theorem confirmation_reply_classification:
  assumes "messages s \<noteq> []" and "role (last (messages s)) = ''user''"
  shows
    "(handle_intent_switch_confirmation s pending =
        execute_intent_switch s (conf_from pending) (conf_to pending))
      = any_in [''yes'', ''y'', ''switch'', ''pause'']
          (strip (lower (content (last (messages s)))))
     \<and>
     (handle_intent_switch_confirmation s pending =
        (End_node, s \<lparr> messages := messages s @ [assistant switch_clarification_msg] \<rparr>))
      = (\<not> any_in [''yes'', ''y'', ''switch'', ''pause'', ''no'', ''n'', ''continue'', ''keep'']
             (strip (lower (content (last (messages s))))))"
proof -
  let ?r = "strip (lower (content (last (messages s))))"
  have sw: "fst (execute_intent_switch s a b) = Tool_choosing" for a b
    by (simp add: execute_intent_switch_def Let_def)
  have split8: "any_in [''yes'', ''y'', ''switch'', ''pause'', ''no'', ''n'', ''continue'', ''keep''] ?r
     = (any_in [''yes'', ''y'', ''switch'', ''pause''] ?r \<or> any_in [''no'', ''n'', ''continue'', ''keep''] ?r)"
    by (auto simp: any_in_def)
  show ?thesis
  proof (cases "any_in [''yes'', ''y'', ''switch'', ''pause''] ?r")
    case True
    then have h: "handle_intent_switch_confirmation s pending =
        execute_intent_switch s (conf_from pending) (conf_to pending)"
      using assms by (simp add: handle_intent_switch_confirmation_def Let_def)
    have "fst (handle_intent_switch_confirmation s pending) \<noteq> End_node"
      using h sw by simp
    then have "handle_intent_switch_confirmation s pending \<noteq>
        (End_node, s \<lparr> messages := messages s @ [assistant switch_clarification_msg] \<rparr>)"
      by auto
    with True h split8 show ?thesis by simp
  next
    case False
    note nf = False
    show ?thesis
    proof (cases "any_in [''no'', ''n'', ''continue'', ''keep''] ?r")
      case True
      then have h: "fst (handle_intent_switch_confirmation s pending) = Input_parameter"
        using assms nf by (simp add: handle_intent_switch_confirmation_def Let_def)
      have a: "handle_intent_switch_confirmation s pending \<noteq>
        execute_intent_switch s (conf_from pending) (conf_to pending)"
        using h sw[of "conf_from pending" "conf_to pending"] by auto
      have b: "handle_intent_switch_confirmation s pending \<noteq>
        (End_node, s \<lparr> messages := messages s @ [assistant switch_clarification_msg] \<rparr>)"
        using h by auto
      from a b nf True split8 show ?thesis by simp
    next
      case False
      then have h: "handle_intent_switch_confirmation s pending =
        (End_node, s \<lparr> messages := messages s @ [assistant switch_clarification_msg] \<rparr>)"
        using assms nf by (simp add: handle_intent_switch_confirmation_def Let_def)
      have "fst (handle_intent_switch_confirmation s pending) = End_node"
        by (simp add: h)
      then have a: "handle_intent_switch_confirmation s pending \<noteq>
        execute_intent_switch s (conf_from pending) (conf_to pending)"
        using sw[of "conf_from pending" "conf_to pending"] by auto
      from a h nf False split8 show ?thesis by simp
    qed
  qed
qed

text \<open>The reply "Definitely not" contains the letter y and executes the switch.\<close>

theorem confirmation_reply_classification_witness:
  "handle_intent_switch_confirmation definitely_not switch_pending =
     execute_intent_switch definitely_not ''book_flight'' ''book_hotel''"
proof -
  have m: "messages definitely_not \<noteq> []" by (simp add: definitely_not_def)
  have r: "role (last (messages definitely_not)) = ''user''"
    by (simp add: definitely_not_def user_def)
  have y: "any_in [''yes'', ''y'', ''switch'', ''pause'']
          (strip (lower (content (last (messages definitely_not)))))"
    by code_simp
  show ?thesis
    using confirmation_reply_classification [OF m r, of switch_pending] y
    by (simp add: switch_pending_def)
qed

section \<open>Slot filling: properties\<close>

subsection \<open>Dictionaries\<close>

lemma map_of_dict_merge:
  "map_of (dict_merge a b) k = (case map_of (rev b) k of Some v \<Rightarrow> Some v | None \<Rightarrow> map_of a k)"
  unfolding dict_merge_def
proof (induction b arbitrary: a)
  case Nil
  then show ?case by simp
next
  case (Cons x xs)
  show ?case
    by (simp add: Cons.IH update_conv' map_add_def split: option.splits)
qed

lemma map_of_filter_keys:
  "map_of (filter (\<lambda>kv. fst kv \<in> S) xs) k = (if k \<in> S then map_of xs k else None)"
  by (induction xs) auto

lemma map_of_rev_filter_keys:
  "map_of (rev (filter (\<lambda>kv. fst kv \<in> S) xs)) k = (if k \<in> S then map_of (rev xs) k else None)"
  by (simp add: rev_filter map_of_filter_keys)

lemma extract_parameters_keys:
  "k \<notin> set required \<Longrightarrow> map_of (rev (extract_parameters r i required)) k = None"
  by (auto simp: extract_parameters_def map_of_rev_filter_keys split: option.splits)

lemma map_of_rev_distinct:
  assumes "distinct (map fst xs)"
  shows "map_of (rev xs) k = map_of xs k"
proof -
  have d: "distinct (map fst (rev xs))" using assms by (simp add: rev_map[symmetric])
  show ?thesis
  proof (cases "map_of xs k")
    case None
    then have "k \<notin> fst ` set xs" by (simp add: map_of_eq_None_iff)
    then have "map_of (rev xs) k = None" by (simp add: map_of_eq_None_iff)
    with None show ?thesis by simp
  next
    case (Some v)
    then have "(k, v) \<in> set xs" by (rule map_of_SomeD)
    then have "(k, v) \<in> set (rev xs)" by simp
    with d have "map_of (rev xs) k = Some v" by (simp only: map_of_eq_Some_iff)
    with Some show ?thesis by simp
  qed
qed

lemma input_parameter_no_message:
  "latest_user_message (messages s) = None \<or> latest_user_message (messages s) = Some [] \<Longrightarrow>
   extracted_parameters (snd (input_parameter r s)) = extracted_parameters s"
  by (auto simp: input_parameter_def Let_def)

lemma input_parameter_params:
  assumes "latest_user_message (messages s) = Some u" and "u \<noteq> []"
  shows "extracted_parameters (snd (input_parameter r s)) =
         dict_merge (extracted_parameters s)
           (extract_parameters r (current_intent s) (required_of s))"
  using assms by (simp add: input_parameter_def Let_def split: option.splits)

subsection \<open>Which extracted keys are merged\<close>

text \<open>
  Claim C6 says that every returned key outside the missing parameters is discarded, so
  that an already filled parameter is never overwritten. In the scenario the origin is
  filled (NYC) and not among the missing parameters; the answer names it again and the
  merged parameters hold Boston.
\<close>

theorem extraction_overwrite_counterexample:
  "\<not> not_get (extracted_parameters overwrite_example) ''origin'' \<and>
   ''origin'' \<notin> set (filter (not_get (extracted_parameters overwrite_example))
                         (required_of overwrite_example)) \<and>
   map_of overwrite_answer ''origin'' = Some (PStr ''Boston'') \<and>
   map_of (extracted_parameters (snd (input_parameter (Some overwrite_answer) overwrite_example)))
     ''origin'' = Some (PStr ''Boston'')"
  by code_simp

text \<open>
  Claim C6, amended. The filter is the list of required parameters, not the list of
  missing ones: a returned key that is not a required parameter never reaches the
  parameters, and a returned key that is a required parameter is merged with the value
  the model returned, also over a value that was already there.
\<close>

theorem extraction_filters_by_required:
  "(k \<notin> set (required_of s) \<longrightarrow>
      map_of (extracted_parameters (snd (input_parameter llm_result s))) k =
      map_of (extracted_parameters s) k) \<and>
   (latest_user_message (messages s) = Some u \<and> u \<noteq> [] \<and>
    current_intent s = Some i \<and> get_intent_config i = Some ic \<and>
    distinct (map fst result) \<and> k \<in> set (required_of s) \<and> map_of result k = Some v \<longrightarrow>
      map_of (extracted_parameters (snd (input_parameter (Some result) s))) k = Some v)"
proof (intro conjI impI)
  assume k: "k \<notin> set (required_of s)"
  show "map_of (extracted_parameters (snd (input_parameter llm_result s))) k =
      map_of (extracted_parameters s) k"
  proof (cases "latest_user_message (messages s)")
    case None
    then show ?thesis by (simp add: input_parameter_no_message)
  next
    case (Some u)
    show ?thesis
    proof (cases "u = []")
      case True
      with Some show ?thesis by (simp add: input_parameter_no_message)
    next
      case False
      with Some k show ?thesis
        by (simp add: input_parameter_params map_of_dict_merge extract_parameters_keys)
    qed
  qed
next
  assume h: "latest_user_message (messages s) = Some u \<and> u \<noteq> [] \<and>
    current_intent s = Some i \<and> get_intent_config i = Some ic \<and>
    distinct (map fst result) \<and> k \<in> set (required_of s) \<and> map_of result k = Some v"
  then have "map_of (rev result) k = Some v" by (simp add: map_of_rev_distinct)
  then have "map_of (rev (extract_parameters (Some result) (current_intent s) (required_of s))) k = Some v"
    using h by (simp add: extract_parameters_def map_of_rev_filter_keys)
  then show "map_of (extracted_parameters (snd (input_parameter (Some result) s))) k = Some v"
    using h by (simp add: input_parameter_params map_of_dict_merge)
qed

theorem extraction_filters_by_required_witness:
  "''seat'' \<notin> set (required_of overwrite_example) \<and>
   map_of (extracted_parameters (snd (input_parameter (Some overwrite_answer) overwrite_example)))
     ''seat'' = None \<and>
   ''origin'' \<in> set (required_of overwrite_example) \<and>
   map_of (extracted_parameters (snd (input_parameter (Some overwrite_answer) overwrite_example)))
     ''origin'' = Some (PStr ''Boston'')"
proof -
  have a: "''seat'' \<notin> set (required_of overwrite_example)"
    by (simp add: required_of_def overwrite_example_def empty_context_def)
  have b: "latest_user_message (messages overwrite_example) = Some ''to Paris, leaving from Boston''"
    by (simp add: latest_user_message_def overwrite_example_def user_def assistant_def)
  have c: "current_intent overwrite_example = Some ''book_flight''"
    by (simp add: overwrite_example_def)
  have d: "get_intent_config ''book_flight'' = Some (the (get_intent_config ''book_flight''))"
    by (simp add: get_intent_config_def INTENTS_def)
  have e: "distinct (map fst overwrite_answer)" by (simp add: overwrite_answer_def)
  have f: "''origin'' \<in> set (required_of overwrite_example)"
    by (simp add: required_of_def overwrite_example_def empty_context_def)
  have g: "map_of overwrite_answer ''origin'' = Some (PStr ''Boston'')"
    by (simp add: overwrite_answer_def)
  have s0: "map_of (extracted_parameters overwrite_example) ''seat'' = None"
    by (simp add: overwrite_example_def)
  from extraction_filters_by_required
         [of "''seat''" overwrite_example "Some overwrite_answer"] a s0
  have 1: "map_of (extracted_parameters (snd (input_parameter (Some overwrite_answer) overwrite_example)))
     ''seat'' = None" by simp
  from extraction_filters_by_required
         [of "''origin''" overwrite_example _ "''to Paris, leaving from Boston''" "''book_flight''"
             "the (get_intent_config ''book_flight'')" overwrite_answer "PStr ''Boston''"]
       b c d e f g
  have 2: "map_of (extracted_parameters (snd (input_parameter (Some overwrite_answer) overwrite_example)))
     ''origin'' = Some (PStr ''Boston'')" by simp
  from a 1 f 2 show ?thesis by simp
qed

subsection \<open>The three outcomes of a slot filler call\<close>

lemma failure_msg_nth: "failure_msg p ! Suc 0 = CHR 0x27"
  by (simp add: failure_msg_def)

lemma clarification_nth: "generate_clarification_question i q ! Suc 0 = CHR '' ''"
  by (simp add: generate_clarification_question_def Let_def)

lemma failure_not_clarification: "failure_msg p \<noteq> generate_clarification_question i q"
proof
  assume "failure_msg p = generate_clarification_question i q"
  then have "failure_msg p ! Suc 0 = generate_clarification_question i q ! Suc 0" by simp
  then show False by (simp add: failure_msg_nth clarification_nth)
qed

lemma input_parameter_failure:
  assumes "latest_user_message (messages s) = Some u" and "u \<noteq> []"
    and "find (\<lambda>param. limit_of s \<le> retries_of (counts_of s) param)
           (filter (not_get (dict_merge (extracted_parameters s)
                      (extract_parameters r (current_intent s) (required_of s))))
                   (required_of s)) = Some p"
  shows "input_parameter r s =
     (Generation,
      s \<lparr> extracted_parameters := dict_merge (extracted_parameters s)
                (extract_parameters r (current_intent s) (required_of s)),
          dialog_context := (dialog_context s)
            \<lparr> parameter_collection_failed := Some True,
              failed_parameter := Some p,
              last_response_type := Some ''parameter_failure'' \<rparr>,
          messages := messages s @ [assistant (failure_msg p)] \<rparr>)"
  using assms by (simp add: input_parameter_def Let_def)

lemma input_parameter_clarification:
  assumes "latest_user_message (messages s) = Some u" and "u \<noteq> []"
    and "extract_parameters r (current_intent s) (required_of s) = []"
    and "filter (not_get (extracted_parameters s)) (required_of s) \<noteq> []"
    and "find (\<lambda>param. limit_of s \<le> retries_of (counts_of s) param)
           (filter (not_get (extracted_parameters s)) (required_of s)) = None"
  shows "input_parameter r s =
     (Generation,
      s \<lparr> extracted_parameters := extracted_parameters s,
          dialog_context := (dialog_context s)
            \<lparr> needs_clarification := Some True,
              last_missing_params := Some (filter (not_get (extracted_parameters s)) (required_of s)),
              retry_counts := Some (increment_retries (counts_of s)
                                     (filter (not_get (extracted_parameters s)) (required_of s))),
              last_response_type := Some ''clarification'' \<rparr>,
          messages := messages s
            @ [assistant (generate_clarification_question (current_intent s)
                            (filter (not_get (extracted_parameters s)) (required_of s)))] \<rparr>)"
  using assms by (simp add: input_parameter_def Let_def dict_merge_def)

lemma input_parameter_progress:
  assumes "latest_user_message (messages s) = Some u" and "u \<noteq> []"
    and "extract_parameters r (current_intent s) (required_of s) \<noteq> []"
    and "find (\<lambda>param. limit_of s \<le> retries_of (counts_of s) param)
           (filter (not_get (dict_merge (extracted_parameters s)
                      (extract_parameters r (current_intent s) (required_of s))))
                   (required_of s)) = None"
  shows "input_parameter r s =
     (Supervisor,
      s \<lparr> extracted_parameters := dict_merge (extracted_parameters s)
                (extract_parameters r (current_intent s) (required_of s)),
          dialog_context := (dialog_context s)
            \<lparr> last_missing_params := Some (filter (not_get (dict_merge (extracted_parameters s)
                      (extract_parameters r (current_intent s) (required_of s)))) (required_of s)),
              needs_clarification := Some False,
              last_response_type := Some ''parameter_progress'' \<rparr> \<rparr>)"
  using assms by (simp add: input_parameter_def Let_def)

subsection \<open>Progress and retry counts\<close>

text \<open>
  Claim C7. On a call of the slot filler that has a user message to read and in which
  the extraction yields at least one accepted parameter, the retry counts are left as
  they were, and no clarification question is appended: the messages are unchanged, or,
  when a parameter that is still missing has already used up its retries, they grow by
  the terminal failure notice, which is no clarification question. So the retry counts
  change only on calls in which the extraction yields nothing.
\<close>

theorem progress_keeps_retry_counts:
  assumes "latest_user_message (messages s) = Some u" and "u \<noteq> []"
    and "extract_parameters r (current_intent s) (required_of s) \<noteq> []"
  shows "retry_counts (dialog_context (snd (input_parameter r s))) = retry_counts (dialog_context s) \<and>
         (messages (snd (input_parameter r s)) = messages s \<or>
          (\<exists>p. messages (snd (input_parameter r s)) = messages s @ [assistant (failure_msg p)])) \<and>
         (\<forall>q. messages (snd (input_parameter r s)) \<noteq>
               messages s @ [assistant (generate_clarification_question (current_intent s) q)]) \<and>
         last_response_type (dialog_context (snd (input_parameter r s))) \<noteq> Some ''clarification''"
proof (cases "find (\<lambda>param. limit_of s \<le> retries_of (counts_of s) param)
           (filter (not_get (dict_merge (extracted_parameters s)
                      (extract_parameters r (current_intent s) (required_of s))))
                   (required_of s))")
  case None
  show ?thesis
    by (simp add: input_parameter_progress [OF assms None])
next
  case (Some p)
  show ?thesis
    by (auto simp: input_parameter_failure [OF assms(1,2) Some] assistant_def
          failure_not_clarification)
qed

theorem progress_keeps_retry_counts_witness:
  "extract_parameters (Some overwrite_answer) (current_intent overwrite_example)
     (required_of overwrite_example) \<noteq> [] \<and>
   filter (not_get (extracted_parameters
                      (snd (input_parameter (Some overwrite_answer) overwrite_example))))
          (required_of overwrite_example) = [''date''] \<and>
   retry_counts (dialog_context (snd (input_parameter (Some overwrite_answer) overwrite_example))) =
     retry_counts (dialog_context overwrite_example) \<and>
   last_response_type (dialog_context (snd (input_parameter (Some overwrite_answer) overwrite_example)))
     \<noteq> Some ''clarification''"
proof -
  have b: "latest_user_message (messages overwrite_example) = Some ''to Paris, leaving from Boston''"
    by (simp add: latest_user_message_def overwrite_example_def user_def assistant_def)
  have n: "''to Paris, leaving from Boston'' \<noteq> []" by simp
  have e: "extract_parameters (Some overwrite_answer) (current_intent overwrite_example)
     (required_of overwrite_example) \<noteq> []"
    by code_simp
  have m: "filter (not_get (extracted_parameters
                      (snd (input_parameter (Some overwrite_answer) overwrite_example))))
          (required_of overwrite_example) = [''date'']"
    by code_simp
  from progress_keeps_retry_counts [OF b n e] e m show ?thesis by simp
qed

subsection \<open>Turns without progress\<close>

lemma retries_of_update:
  "retries_of (AList.update k v c) p = (if p = k then v else retries_of c p)"
  by (simp add: retries_of_def update_conv')

lemma retries_of_increment:
  "distinct ms \<Longrightarrow>
   retries_of (increment_retries c ms) p = retries_of c p + (if p \<in> set ms then 1 else 0)"
  unfolding increment_retries_def
proof (induction ms arbitrary: c)
  case Nil
  then show ?case by simp
next
  case (Cons m ms)
  then show ?case by (auto simp: retries_of_update)
qed

lemma latest_user_says: "latest_user_message (messages (user_says u s)) = Some u"
  by (simp add: latest_user_message_def user_says_def user_def)

lemma user_says_frame:
  "required_of (user_says u s) = required_of s"
  "counts_of (user_says u s) = counts_of s"
  "limit_of (user_says u s) = limit_of s"
  "current_intent (user_says u s) = current_intent s"
  "extracted_parameters (user_says u s) = extracted_parameters s"
  "messages (user_says u s) = messages s @ [user u]"
  by (simp_all add: user_says_def required_of_def counts_of_def limit_of_def)

lemma find_None_all: "find P xs = None \<longleftrightarrow> (\<forall>x\<in>set xs. \<not> P x)"
  by (auto simp: find_None_iff)

lemma find_hd: "xs \<noteq> [] \<Longrightarrow> \<forall>x\<in>set xs. P x \<Longrightarrow> find P xs = Some (hd xs)"
  by (cases xs) auto

lemma clarified_frame:
  "required_of (t \<lparr> extracted_parameters := x,
                     dialog_context := (dialog_context t)
                       \<lparr> needs_clarification := a, last_missing_params := b,
                         retry_counts := Some c, last_response_type := e \<rparr>,
                     messages := ms \<rparr>) = required_of t"
  "counts_of (t \<lparr> extracted_parameters := x,
                   dialog_context := (dialog_context t)
                     \<lparr> needs_clarification := a, last_missing_params := b,
                       retry_counts := Some c, last_response_type := e \<rparr>,
                   messages := ms \<rparr>) = c"
  "limit_of (t \<lparr> extracted_parameters := x,
                  dialog_context := (dialog_context t)
                    \<lparr> needs_clarification := a, last_missing_params := b,
                      retry_counts := Some c, last_response_type := e \<rparr>,
                  messages := ms \<rparr>) = limit_of t"
  by (simp_all add: required_of_def counts_of_def limit_of_def)

text \<open>A turn without progress while every missing parameter has retries left.\<close>

lemma clarify_turn:
  assumes u: "u \<noteq> []"
    and e: "extract_parameters r (current_intent t) (required_of t) = []"
    and m: "filter (not_get (extracted_parameters t)) (required_of t) \<noteq> []"
    and lt: "\<forall>p\<in>set (filter (not_get (extracted_parameters t)) (required_of t)).
               retries_of (counts_of t) p < limit_of t"
  shows "slot_filler_turn u r t =
     (Generation,
      (user_says u t) \<lparr> extracted_parameters := extracted_parameters t,
          dialog_context := (dialog_context (user_says u t))
            \<lparr> needs_clarification := Some True,
              last_missing_params := Some (filter (not_get (extracted_parameters t)) (required_of t)),
              retry_counts := Some (increment_retries (counts_of t)
                                     (filter (not_get (extracted_parameters t)) (required_of t))),
              last_response_type := Some ''clarification'' \<rparr>,
          messages := messages t @ [user u]
            @ [assistant (generate_clarification_question (current_intent t)
                            (filter (not_get (extracted_parameters t)) (required_of t)))] \<rparr>)"
proof -
  let ?v = "user_says u t"
  have f: "find (\<lambda>param. limit_of ?v \<le> retries_of (counts_of ?v) param)
             (filter (not_get (extracted_parameters ?v)) (required_of ?v)) = None"
    using lt by (fastforce simp: find_None_all user_says_frame)
  have "input_parameter r ?v = (Generation,
      ?v \<lparr> extracted_parameters := extracted_parameters ?v,
          dialog_context := (dialog_context ?v)
            \<lparr> needs_clarification := Some True,
              last_missing_params := Some (filter (not_get (extracted_parameters ?v)) (required_of ?v)),
              retry_counts := Some (increment_retries (counts_of ?v)
                                     (filter (not_get (extracted_parameters ?v)) (required_of ?v))),
              last_response_type := Some ''clarification'' \<rparr>,
          messages := messages ?v
            @ [assistant (generate_clarification_question (current_intent ?v)
                            (filter (not_get (extracted_parameters ?v)) (required_of ?v)))] \<rparr>)"
    using e m f
    by (intro input_parameter_clarification [OF latest_user_says u])
       (simp_all add: user_says_frame)
  then show ?thesis by (simp add: slot_filler_turn_def user_says_frame)
qed

text \<open>A turn on which a still missing parameter has no retries left.\<close>

lemma fail_turn:
  assumes u: "u \<noteq> []"
    and e: "extract_parameters r (current_intent t) (required_of t) = []"
    and m: "filter (not_get (extracted_parameters t)) (required_of t) \<noteq> []"
    and ge: "\<forall>p\<in>set (filter (not_get (extracted_parameters t)) (required_of t)).
               limit_of t \<le> retries_of (counts_of t) p"
  shows "slot_filler_turn u r t =
     (Generation,
      (user_says u t) \<lparr> extracted_parameters := extracted_parameters t,
          dialog_context := (dialog_context (user_says u t))
            \<lparr> parameter_collection_failed := Some True,
              failed_parameter := Some (hd (filter (not_get (extracted_parameters t)) (required_of t))),
              last_response_type := Some ''parameter_failure'' \<rparr>,
          messages := messages t @ [user u]
            @ [assistant (failure_msg (hd (filter (not_get (extracted_parameters t)) (required_of t))))] \<rparr>)"
proof -
  let ?v = "user_says u t"
  let ?M = "filter (not_get (extracted_parameters t)) (required_of t)"
  have dm: "dict_merge (extracted_parameters t) [] = extracted_parameters t"
    by (simp add: dict_merge_def)
  have f: "find (\<lambda>param. limit_of ?v \<le> retries_of (counts_of ?v) param)
             (filter (not_get (dict_merge (extracted_parameters ?v)
                      (extract_parameters r (current_intent ?v) (required_of ?v))))
                   (required_of ?v)) = Some (hd ?M)"
    using find_hd [OF m, of "\<lambda>param. limit_of t \<le> retries_of (counts_of t) param"] ge e
    by (simp add: user_says_frame dm)
  show ?thesis
    using input_parameter_failure [OF latest_user_says u f] e
    by (simp add: slot_filler_turn_def user_says_frame dm)
qed

lemma no_progress_invariant:
  assumes u: "u \<noteq> []"
    and e: "extract_parameters r (current_intent s) (required_of s) = []"
    and d: "distinct (required_of s)"
    and m: "filter (not_get (extracted_parameters s)) (required_of s) \<noteq> []"
    and z: "\<forall>p\<in>set (filter (not_get (extracted_parameters s)) (required_of s)).
              retries_of (counts_of s) p = 0"
    and n: "int n \<le> limit_of s"
  shows "extracted_parameters (no_progress_turns n u r s) = extracted_parameters s \<and>
         required_of (no_progress_turns n u r s) = required_of s \<and>
         current_intent (no_progress_turns n u r s) = current_intent s \<and>
         limit_of (no_progress_turns n u r s) = limit_of s \<and>
         (\<forall>p\<in>set (filter (not_get (extracted_parameters s)) (required_of s)).
              retries_of (counts_of (no_progress_turns n u r s)) p = int n)"
  using n
proof (induction n)
  case 0
  with z show ?case by simp
next
  case (Suc n)
  let ?t = "no_progress_turns n u r s"
  let ?M = "filter (not_get (extracted_parameters s)) (required_of s)"
  from Suc have ih:
    "extracted_parameters ?t = extracted_parameters s"
    "required_of ?t = required_of s"
    "current_intent ?t = current_intent s"
    "limit_of ?t = limit_of s"
    "\<forall>p\<in>set ?M. retries_of (counts_of ?t) p = int n"
    by simp_all
  have lt: "int n < limit_of s" using Suc.prems by simp
  have step: "slot_filler_turn u r ?t =
     (Generation,
      (user_says u ?t) \<lparr> extracted_parameters := extracted_parameters ?t,
          dialog_context := (dialog_context (user_says u ?t))
            \<lparr> needs_clarification := Some True,
              last_missing_params := Some (filter (not_get (extracted_parameters ?t)) (required_of ?t)),
              retry_counts := Some (increment_retries (counts_of ?t)
                                     (filter (not_get (extracted_parameters ?t)) (required_of ?t))),
              last_response_type := Some ''clarification'' \<rparr>,
          messages := messages ?t @ [user u]
            @ [assistant (generate_clarification_question (current_intent ?t)
                            (filter (not_get (extracted_parameters ?t)) (required_of ?t)))] \<rparr>)"
    using e m ih lt by (intro clarify_turn [OF u]) simp_all
  have dM: "distinct ?M" using d by simp
  show ?case
    using ih dM
    by (simp add: step clarified_frame user_says_frame retries_of_increment)
qed

subsection \<open>The retry ceiling\<close>

text \<open>
  Claim C4 says that with a limit of five the terminal failure comes on the fifth
  consecutive turn without progress, and only on turns without progress. The stubborn
  user's fifth turn ends with the fifth clarification question and no failure; the
  failure comes with the sixth turn. And a turn that does make progress (the city is
  extracted) still ends with the failure for the number of days once its retries are
  used up.
\<close>

theorem fifth_turn_counterexample:
  "map_option last_response_type
     (final_context (chat stubborn_world
        [''Book a hotel'', ''asdf'', ''asdf'', ''asdf'', ''asdf''] None)) = Some (Some ''clarification'') \<and>
   map_option parameter_collection_failed
     (final_context (chat stubborn_world
        [''Book a hotel'', ''asdf'', ''asdf'', ''asdf'', ''asdf''] None)) = Some None \<and>
   length (filter (\<lambda>m. role m = ''assistant'')
     (final_messages (chat stubborn_world
        [''Book a hotel'', ''asdf'', ''asdf'', ''asdf'', ''asdf''] None))) = 5 \<and>
   map_option failed_parameter
     (final_context (chat stubborn_world
        [''Book a hotel'', ''asdf'', ''asdf'', ''asdf'', ''asdf'', ''asdf''] None)) = Some (Some ''destination'') \<and>
   extract_parameters (Some [(''destination'', PStr ''Paris'')]) (current_intent hotel_start)
     (required_of hotel_start) \<noteq> [] \<and>
   failed_parameter (dialog_context (snd
     (slot_filler_turn ''Paris'' (Some [(''destination'', PStr ''Paris'')])
        (no_progress_turns 5 ''asdf'' (Some []) hotel_start)))) = Some ''days''"
  by code_simp

text \<open>
  Claim C4, amended. The retry count of a parameter is the number of clarification
  questions asked for it, and the failure is returned when a still missing parameter
  has reached the limit on entry. So with the limit five, retry counts starting at zero
  and a parameter \<open>b\<close> missing, each of the first five consecutive turns without
  progress asks the clarification question and raises the count of \<open>b\<close> by one, and
  the sixth turn returns the terminal failure, for the first missing parameter. The
  check comes before the test for progress: on any call of the slot filler in which a
  parameter that is still missing after the merge has reached the limit, the failure is
  returned whether or not something was extracted.
\<close>

theorem retry_limit_on_sixth_turn:
  assumes u: "u \<noteq> []"
    and e: "extract_parameters r (current_intent s) (required_of s) = []"
    and d: "distinct (required_of s)"
    and l: "limit_of s = 5"
    and b: "b \<in> set (filter (not_get (extracted_parameters s)) (required_of s))"
    and z: "\<forall>p\<in>set (filter (not_get (extracted_parameters s)) (required_of s)).
              retries_of (counts_of s) p = 0"
  shows
    "(\<forall>n<5.
        fst (slot_filler_turn u r (no_progress_turns n u r s)) = Generation \<and>
        last_response_type (dialog_context (no_progress_turns (Suc n) u r s)) = Some ''clarification'' \<and>
        messages (no_progress_turns (Suc n) u r s) =
          messages (no_progress_turns n u r s)
          @ [user u, assistant (generate_clarification_question (current_intent s)
                                  (filter (not_get (extracted_parameters s)) (required_of s)))] \<and>
        retries_of (counts_of (no_progress_turns (Suc n) u r s)) b = int (Suc n)) \<and>
     fst (slot_filler_turn u r (no_progress_turns 5 u r s)) = Generation \<and>
     last_response_type (dialog_context (no_progress_turns 6 u r s)) = Some ''parameter_failure'' \<and>
     failed_parameter (dialog_context (no_progress_turns 6 u r s)) =
       Some (hd (filter (not_get (extracted_parameters s)) (required_of s))) \<and>
     messages (no_progress_turns 6 u r s) =
       messages (no_progress_turns 5 u r s)
       @ [user u, assistant (failure_msg (hd (filter (not_get (extracted_parameters s))
                                                   (required_of s))))] \<and>
     (latest_user_message (messages t) = Some v \<and> v \<noteq> [] \<and>
      p \<in> set (filter (not_get (extracted_parameters (snd (input_parameter r' t))))
                      (required_of t)) \<and>
      limit_of t \<le> retries_of (counts_of t) p \<longrightarrow>
        fst (input_parameter r' t) = Generation \<and>
        last_response_type (dialog_context (snd (input_parameter r' t))) =
          Some ''parameter_failure'')"
proof -
  let ?M = "filter (not_get (extracted_parameters s)) (required_of s)"
  have m: "?M \<noteq> []" using b by (metis empty_iff list.set(1))
  have inv: "int n \<le> 5 \<Longrightarrow>
         extracted_parameters (no_progress_turns n u r s) = extracted_parameters s \<and>
         required_of (no_progress_turns n u r s) = required_of s \<and>
         current_intent (no_progress_turns n u r s) = current_intent s \<and>
         limit_of (no_progress_turns n u r s) = limit_of s \<and>
         (\<forall>p\<in>set ?M. retries_of (counts_of (no_progress_turns n u r s)) p = int n)" for n
    using no_progress_invariant [OF u e d m z, of n] l by simp
  have dM: "distinct ?M" using d by simp
  have early: "fst (slot_filler_turn u r (no_progress_turns n u r s)) = Generation \<and>
        last_response_type (dialog_context (no_progress_turns (Suc n) u r s)) = Some ''clarification'' \<and>
        messages (no_progress_turns (Suc n) u r s) =
          messages (no_progress_turns n u r s)
          @ [user u, assistant (generate_clarification_question (current_intent s) ?M)] \<and>
        retries_of (counts_of (no_progress_turns (Suc n) u r s)) b = int (Suc n)"
    if n: "n < 5" for n
  proof -
    let ?t = "no_progress_turns n u r s"
    from n have "int n \<le> 5" by simp
    from inv [OF this] have ih:
      "extracted_parameters ?t = extracted_parameters s"
      "required_of ?t = required_of s"
      "current_intent ?t = current_intent s"
      "limit_of ?t = limit_of s"
      "\<forall>p\<in>set ?M. retries_of (counts_of ?t) p = int n"
      by simp_all
    have step: "slot_filler_turn u r ?t =
     (Generation,
      (user_says u ?t) \<lparr> extracted_parameters := extracted_parameters ?t,
          dialog_context := (dialog_context (user_says u ?t))
            \<lparr> needs_clarification := Some True,
              last_missing_params := Some (filter (not_get (extracted_parameters ?t)) (required_of ?t)),
              retry_counts := Some (increment_retries (counts_of ?t)
                                     (filter (not_get (extracted_parameters ?t)) (required_of ?t))),
              last_response_type := Some ''clarification'' \<rparr>,
          messages := messages ?t @ [user u]
            @ [assistant (generate_clarification_question (current_intent ?t)
                            (filter (not_get (extracted_parameters ?t)) (required_of ?t)))] \<rparr>)"
      using e m ih l n by (intro clarify_turn [OF u]) simp_all
    show ?thesis
      using ih b dM
      by (simp add: step clarified_frame retries_of_increment)
  qed
  let ?t5 = "no_progress_turns 5 u r s"
  from inv [of 5] have i5:
      "extracted_parameters ?t5 = extracted_parameters s"
      "required_of ?t5 = required_of s"
      "current_intent ?t5 = current_intent s"
      "limit_of ?t5 = limit_of s"
      "\<forall>p\<in>set ?M. retries_of (counts_of ?t5) p = 5"
    by simp_all
  have last: "slot_filler_turn u r ?t5 =
     (Generation,
      (user_says u ?t5) \<lparr> extracted_parameters := extracted_parameters ?t5,
          dialog_context := (dialog_context (user_says u ?t5))
            \<lparr> parameter_collection_failed := Some True,
              failed_parameter := Some (hd (filter (not_get (extracted_parameters ?t5)) (required_of ?t5))),
              last_response_type := Some ''parameter_failure'' \<rparr>,
          messages := messages ?t5 @ [user u]
            @ [assistant (failure_msg (hd (filter (not_get (extracted_parameters ?t5)) (required_of ?t5))))] \<rparr>)"
    using e m i5 l by (intro fail_turn [OF u]) simp_all
  have six: "no_progress_turns 6 u r s = snd (slot_filler_turn u r ?t5)"
    by (simp add: eval_nat_numeral)
  have any: "fst (input_parameter r' t) = Generation \<and>
        last_response_type (dialog_context (snd (input_parameter r' t))) =
          Some ''parameter_failure''"
    if h: "latest_user_message (messages t) = Some v \<and> v \<noteq> [] \<and>
      p \<in> set (filter (not_get (extracted_parameters (snd (input_parameter r' t))))
                      (required_of t)) \<and>
      limit_of t \<le> retries_of (counts_of t) p"
  proof -
    let ?U = "dict_merge (extracted_parameters t)
                (extract_parameters r' (current_intent t) (required_of t))"
    from h have um: "latest_user_message (messages t) = Some v" "v \<noteq> []" by simp_all
    have "p \<in> set (filter (not_get ?U) (required_of t))"
      using h by (simp add: input_parameter_params [OF um])
    with h have "find (\<lambda>param. limit_of t \<le> retries_of (counts_of t) param)
                   (filter (not_get ?U) (required_of t)) \<noteq> None"
      by (auto simp: find_None_all)
    then obtain q where "find (\<lambda>param. limit_of t \<le> retries_of (counts_of t) param)
                   (filter (not_get ?U) (required_of t)) = Some q"
      by auto
    from input_parameter_failure [OF um this] show ?thesis by simp
  qed
  show ?thesis
    using early i5 any by (simp add: six last)
qed

theorem retry_limit_on_sixth_turn_witness:
  "''days'' \<in> set (filter (not_get (extracted_parameters hotel_start)) (required_of hotel_start)) \<and>
   last_response_type (dialog_context (no_progress_turns 5 ''asdf'' (Some []) hotel_start)) =
     Some ''clarification'' \<and>
   retries_of (counts_of (no_progress_turns 5 ''asdf'' (Some []) hotel_start)) ''days'' = 5 \<and>
   last_response_type (dialog_context (no_progress_turns 6 ''asdf'' (Some []) hotel_start)) =
     Some ''parameter_failure'' \<and>
   failed_parameter (dialog_context (no_progress_turns 6 ''asdf'' (Some []) hotel_start)) =
     Some ''destination'' \<and>
   last_response_type (dialog_context (snd
     (input_parameter (Some [(''destination'', PStr ''Paris'')])
        (user_says ''Paris'' (no_progress_turns 5 ''asdf'' (Some []) hotel_start))))) =
     Some ''parameter_failure''"
proof -
  let ?t = "user_says ''Paris'' (no_progress_turns 5 ''asdf'' (Some []) hotel_start)"
  let ?r = "Some [(''destination'', PStr ''Paris'')]"
  have u: "''asdf'' \<noteq> []" by simp
  have e: "extract_parameters (Some []) (current_intent hotel_start) (required_of hotel_start) = []"
    by (simp add: extract_parameters_def split: option.splits)
  have d: "distinct (required_of hotel_start)"
    by (simp add: required_of_def hotel_start_def empty_context_def)
  have l: "limit_of hotel_start = 5"
    by (simp add: limit_of_def hotel_start_def empty_context_def)
  have M: "filter (not_get (extracted_parameters hotel_start)) (required_of hotel_start) =
           [''destination'', ''days'']"
    by (simp add: required_of_def hotel_start_def empty_context_def not_get_def)
  have b: "''days'' \<in> set (filter (not_get (extracted_parameters hotel_start)) (required_of hotel_start))"
    by (simp add: M)
  have z: "\<forall>p\<in>set (filter (not_get (extracted_parameters hotel_start)) (required_of hotel_start)).
              retries_of (counts_of hotel_start) p = 0"
    by (simp add: M counts_of_def retries_of_def hotel_start_def empty_context_def)
  have t1: "latest_user_message (messages ?t) = Some ''Paris''" by (rule latest_user_says)
  have t2: "''days'' \<in> set (filter (not_get (extracted_parameters (snd (input_parameter ?r ?t))))
                      (required_of ?t))"
    by code_simp
  have t3: "limit_of ?t \<le> retries_of (counts_of ?t) ''days''"
    by code_simp
  note w = retry_limit_on_sixth_turn [OF u e d l b z, of ?t "''Paris''" "''days''" ?r]
  from w have four: "\<forall>n<5. last_response_type (dialog_context
           (no_progress_turns (Suc n) ''asdf'' (Some []) hotel_start)) = Some ''clarification'' \<and>
        retries_of (counts_of (no_progress_turns (Suc n) ''asdf'' (Some []) hotel_start)) ''days'' =
          int (Suc n)"
    by simp
  have "(4::nat) < 5" by simp
  with four have five: "last_response_type (dialog_context
           (no_progress_turns (Suc 4) ''asdf'' (Some []) hotel_start)) = Some ''clarification'' \<and>
        retries_of (counts_of (no_progress_turns (Suc 4) ''asdf'' (Some []) hotel_start)) ''days'' =
          int (Suc 4)"
    by blast
  have s4: "Suc 4 = 5" by simp
  from five have five': "last_response_type (dialog_context
           (no_progress_turns 5 ''asdf'' (Some []) hotel_start)) = Some ''clarification'' \<and>
        retries_of (counts_of (no_progress_turns 5 ''asdf'' (Some []) hotel_start)) ''days'' = 5"
    unfolding s4 by simp
  from w t1 t2 t3 b five' show ?thesis by (simp add: M)
qed

section \<open>The batch scheduler: properties\<close>

lemma ready0:
  "filter (tool_ready []) [''search_flights'', ''search_hotels'', ''get_weather'',
                           ''book_flight'', ''book_hotel''] =
   [''search_flights'', ''search_hotels'', ''get_weather'']"
  by (simp add: tool_ready_def get_tool_config_def TOOLS_def)

lemma not_ready_later:
  assumes "set (concat eo) \<subseteq> {''search_flights'', ''search_hotels'', ''get_weather'',
                           ''book_flight'', ''book_hotel''}"
  shows "\<not> tool_ready eo ''book_flight''" and "\<not> tool_ready eo ''book_hotel''"
proof -
  have "''flight_options'' \<notin> set (concat eo)" "''hotel_options'' \<notin> set (concat eo)"
    using assms by auto
  then show "\<not> tool_ready eo ''book_flight''" and "\<not> tool_ready eo ''book_hotel''"
    by (simp_all add: tool_ready_def get_tool_config_def TOOLS_def)
qed

lemma sort_key_Nil_iff: "sort_key h xs = [] \<longleftrightarrow> xs = []"
  by (metis length_sort length_0_conv)

lemma next_batch_filter:
  "next_batch h remaining eo =
     (if filter (tool_ready eo) remaining = [] then take 1 (sort_key h remaining)
      else sort_key h (filter (tool_ready eo) remaining))"
  by (simp add: next_batch_def set_iter_def Let_def filter_sort sort_key_Nil_iff)

text \<open>
  Claim C3 (the code departs from it). \<^verbatim>\<open>get_tool_execution_order\<close> looks the required
  tags up among the names of the scheduled tools, where they never are, so a tool with a
  requirement is never ready and is only scheduled by the fallback, one tool per batch.
  For the vacation intent, in whatever order the set is iterated, the schedule has
  three batches: the three tools without requirements, then one booking tool, then the
  other; after the first batch both booking tools have every required tag produced, and
  still the second batch holds only one of them.
\<close>

theorem plan_vacation_schedule:
  "length (get_tool_execution_order h ''plan_vacation'') = 3 \<and>
   set (get_tool_execution_order h ''plan_vacation'' ! 0) =
     {''search_flights'', ''search_hotels'', ''get_weather''} \<and>
   dependencies_satisfied (take 1 (get_tool_execution_order h ''plan_vacation'')) ''book_flight'' \<and>
   dependencies_satisfied (take 1 (get_tool_execution_order h ''plan_vacation'')) ''book_hotel'' \<and>
   length (get_tool_execution_order h ''plan_vacation'' ! 1) = 1 \<and>
   length (get_tool_execution_order h ''plan_vacation'' ! 2) = 1"
proof -
  let ?T = "[''search_flights'', ''search_hotels'', ''get_weather'', ''book_flight'', ''book_hotel'']"
  let ?b0 = "sort_key h [''search_flights'', ''search_hotels'', ''get_weather'']"
  have g: "get_tool_execution_order h ''plan_vacation'' = schedule_loop h ?T []"
    by (simp add: get_tool_execution_order_def get_intent_config_def INTENTS_def)
  have sb0: "set ?b0 = {''search_flights'', ''search_hotels'', ''get_weather''}"
    by (simp only: set_sort) simp
  have nb0: "next_batch h ?T [] = ?b0"
    by (simp only: next_batch_filter ready0) simp
  have rem1: "filter (\<lambda>t. t \<notin> set ?b0) ?T = [''book_flight'', ''book_hotel'']"
    by (simp only: sb0) simp
  have step1: "schedule_loop h ?T [] = schedule_loop h [''book_flight'', ''book_hotel''] [?b0]"
    by (subst schedule_loop.simps) (simp only: nb0 rem1, simp)
  have sub1: "set (concat [?b0]) \<subseteq> set ?T" using sb0 by auto
  have nr1: "filter (tool_ready [?b0]) [''book_flight'', ''book_hotel''] = []"
    using not_ready_later [of "[?b0]"] sub1 by simp
  have dep: "dependencies_satisfied [?b0] ''book_flight'' \<and>
             dependencies_satisfied [?b0] ''book_hotel''"
  proof -
    have "''search_flights'' \<in> set ?b0" "''search_hotels'' \<in> set ?b0" using sb0 by auto
    then have "''flight_options'' \<in> set (produced_tags [?b0])"
              "''hotel_options'' \<in> set (produced_tags [?b0])"
      by (auto simp: produced_tags_def get_tool_config_def TOOLS_def intro!: bexI)
    then show ?thesis
      by (simp add: dependencies_satisfied_def get_tool_config_def TOOLS_def)
  qed
  have l0: "length ?b0 = 3" by simp
  show ?thesis
  proof (cases "h ''book_flight'' \<le> h ''book_hotel''")
    case True
    have nb1: "next_batch h [''book_flight'', ''book_hotel''] [?b0] = [''book_flight'']"
      using True by (simp only: next_batch_filter nr1) simp
    have step2: "schedule_loop h [''book_flight'', ''book_hotel''] [?b0] =
                 schedule_loop h [''book_hotel''] [?b0, [''book_flight'']]"
      by (subst schedule_loop.simps) (simp only: nb1, simp)
    have sub2: "set (concat [?b0, [''book_flight'']]) \<subseteq> set ?T" using sb0 by auto
    have nr2: "filter (tool_ready [?b0, [''book_flight'']]) [''book_hotel''] = []"
      using not_ready_later [of "[?b0, [''book_flight'']]"] sub2 by simp
    have nb2: "next_batch h [''book_hotel''] [?b0, [''book_flight'']] = [''book_hotel'']"
      by (simp only: next_batch_filter nr2) simp
    have step3: "schedule_loop h [''book_hotel''] [?b0, [''book_flight'']] =
                 [?b0, [''book_flight''], [''book_hotel'']]"
      by (subst schedule_loop.simps, simp only: nb2, subst schedule_loop.simps, simp)
    have "get_tool_execution_order h ''plan_vacation'' = [?b0, [''book_flight''], [''book_hotel'']]"
      by (simp only: g step1 step2 step3)
    then show ?thesis using sb0 dep by simp
  next
    case False
    have nb1: "next_batch h [''book_flight'', ''book_hotel''] [?b0] = [''book_hotel'']"
      using False by (simp only: next_batch_filter nr1) simp
    have step2: "schedule_loop h [''book_flight'', ''book_hotel''] [?b0] =
                 schedule_loop h [''book_flight''] [?b0, [''book_hotel'']]"
      by (subst schedule_loop.simps) (simp only: nb1, simp)
    have sub2: "set (concat [?b0, [''book_hotel'']]) \<subseteq> set ?T" using sb0 by auto
    have nr2: "filter (tool_ready [?b0, [''book_hotel'']]) [''book_flight''] = []"
      using not_ready_later [of "[?b0, [''book_hotel'']]"] sub2 by simp
    have nb2: "next_batch h [''book_flight''] [?b0, [''book_hotel'']] = [''book_flight'']"
      by (simp only: next_batch_filter nr2) simp
    have step3: "schedule_loop h [''book_flight''] [?b0, [''book_hotel'']] =
                 [?b0, [''book_hotel''], [''book_flight'']]"
      by (subst schedule_loop.simps, simp only: nb2, subst schedule_loop.simps, simp)
    have "get_tool_execution_order h ''plan_vacation'' = [?b0, [''book_hotel''], [''book_flight'']]"
      by (simp only: g step1 step2 step3)
    then show ?thesis using sb0 dep by simp
  qed
qed

section \<open>Routing after a batch: properties\<close>

text \<open>
  The router sends a session to the tool executor only while there are no tool results
  at all.
\<close>

lemma results_block_decision: "tool_results s \<noteq> [] \<Longrightarrow> decide_next_action s \<noteq> Tool_executing"
  by (simp add: decide_next_action_def Let_def)

lemma handler_never_executes:
  "fst (handle_intent_switch_confirmation s pending) \<noteq> Tool_executing"
  by (simp add: handle_intent_switch_confirmation_def execute_intent_switch_def Let_def)

lemma results_block_execution:
  assumes "tool_results s \<noteq> []"
  shows "fst (supervisor llm s) \<noteq> Tool_executing"
  using results_block_decision [OF assms] handler_never_executes
  by (auto simp: supervisor_def request_intent_switch_confirmation_def Let_def
           split: option.splits prod.splits)

text \<open>
  Claim C1 (the code departs from it). In the flight booking the schedule has two
  batches. After the first batch has run, the tools are selected, no parameter is
  missing, the results of the first batch are recorded and the batch index 1 is below
  the number of batches; the router then chooses the response generator, not the tool
  executor. The turn ends with the flight search done and the booking never run, and a
  further utterance of the user does not run it either.
\<close>

theorem second_batch_never_dispatched:
  "map_option tool_execution_order (final_context (chat flight_world [flight_request] None)) =
     Some (Some [[''search_flights''], [''book_flight'']]) \<and>
   map_option current_tool_batch (final_context (chat flight_world [flight_request] None)) =
     Some (Some 1) \<and>
   map_option (map fst \<circ> tool_results) (final_state (chat flight_world [flight_request] None)) =
     Some [''search_flights''] \<and>
   map_option selected_tools (final_state (chat flight_world [flight_request] None)) =
     Some [''search_flights'', ''book_flight''] \<and>
   map_option still_missing (final_state (chat flight_world [flight_request] None)) = Some [] \<and>
   map_option decide_next_action (final_state (chat flight_world [flight_request] None)) =
     Some Generation \<and>
   map_option current_tool_batch
     (final_context (chat flight_world [flight_request, ''please go on and book it''] None)) =
     Some (Some 1) \<and>
   map_option (map fst \<circ> tool_results)
     (final_state (chat flight_world [flight_request, ''please go on and book it''] None)) =
     Some [''search_flights'']"
  by code_simp

section \<open>Tool execution: properties\<close>

text \<open>
  Claim C8 (the code departs from it). A tool whose call raises is caught inside
  \<^verbatim>\<open>_execute_tool\<close> and comes back as an error dictionary, which the executor then
  stamps with \<^verbatim>\<open>"success": True\<close>: the batch counts as successful and the batch index
  moves on. With the repository's tools the hotel booking is called with the keyword
  \<^verbatim>\<open>destination\<close>, which the function does not have; the index goes from 1 to 2. With
  a tool that fails on its own the index goes from 0 to 1.
\<close>

theorem failed_execution_advances_cursor:
  "current_tool_batch (dialog_context hotel_ready) = Some 1 \<and>
   current_tool_batch (dialog_context (snd (tool_executing travel_tools hotel_ready))) = Some 2 \<and>
   batch_execution_success (dialog_context (snd (tool_executing travel_tools hotel_ready))) =
     Some True \<and>
   map_of (tool_results (snd (tool_executing travel_tools hotel_ready))) ''book_hotel'' =
     Some [(''error'', PStr ''Tool execution failed: got an unexpected keyword argument destination''),
           (''success'', PBool True)] \<and>
   current_tool_batch (dialog_context (snd (tool_executing failing_loader hotel_fresh))) = Some 1 \<and>
   map_of (tool_results (snd (tool_executing failing_loader hotel_fresh))) ''search_hotels'' =
     Some [(''error'', PStr ''Tool execution failed: connection timed out''),
           (''success'', PBool True)]"
  by code_simp

end
